theory Spec2Isabelle
  imports Complex_Main "HOL-Library.AList"
begin

section \<open>Numbers and vectors\<close>

text \<open>
  The program is TypeScript: every \<^verbatim>\<open>number\<close> is an IEEE double. The numbers kept in
  records (positions, stats, timers) are modelled as real numbers, and the geometry and
  the timers compute with them exactly; the one infinity that code uses on purpose
  (\<^verbatim>\<open>Number.POSITIVE_INFINITY\<close> in \<^verbatim>\<open>checkEnemyHit\<close>) is a constructor of its own.
  The damage formula of \<^verbatim>\<open>damageEnemy\<close> is computed in the doubles, with the rounding
  of every operation, NaN and the infinities: see the next section.

  \<^verbatim>\<open>Vector3\<close> is the three.js class; its methods are modelled as three.js defines
  them (\<^verbatim>\<open>normalize\<close> divides by \<^verbatim>\<open>length() || 1\<close>, \<^verbatim>\<open>distanceTo\<close>
  is the square root of \<^verbatim>\<open>distanceToSquared\<close>). The methods mutate their receiver;
  the model returns the new vector, and where the source relies on two names for one
  object the definition says so.
\<close>

datatype vec3 = Vector3 (vx: real) (vy: real) (vz: real)

definition subVectors :: "vec3 \<Rightarrow> vec3 \<Rightarrow> vec3" where
  "subVectors a b = Vector3 (vx a - vx b) (vy a - vy b) (vz a - vz b)"

definition add_v :: "vec3 \<Rightarrow> vec3 \<Rightarrow> vec3" where
  "add_v a b = Vector3 (vx a + vx b) (vy a + vy b) (vz a + vz b)"

definition multiplyScalar :: "vec3 \<Rightarrow> real \<Rightarrow> vec3" where
  "multiplyScalar a k = Vector3 (vx a * k) (vy a * k) (vz a * k)"

definition dot :: "vec3 \<Rightarrow> vec3 \<Rightarrow> real" where
  "dot a b = vx a * vx b + vy a * vy b + vz a * vz b"

definition distanceToSquared :: "vec3 \<Rightarrow> vec3 \<Rightarrow> real" where
  "distanceToSquared a b =
     (let dx = vx a - vx b; dy = vy a - vy b; dz = vz a - vz b
      in dx * dx + dy * dy + dz * dz)"

definition distanceTo :: "vec3 \<Rightarrow> vec3 \<Rightarrow> real" where
  "distanceTo a b = sqrt (distanceToSquared a b)"

definition length_v :: "vec3 \<Rightarrow> real" where
  "length_v a = sqrt (vx a * vx a + vy a * vy a + vz a * vz a)"

definition normalize_v :: "vec3 \<Rightarrow> vec3" where
  "normalize_v a = (let l = length_v a in multiplyScalar a (1 / (if l = 0 then 1 else l)))"

text \<open>\<^verbatim>\<open>Math.atan2(y, x)\<close>, with \<^verbatim>\<open>atan2(0, 0) = 0\<close>; signed zeros are not modelled.\<close>

definition atan2 :: "real \<Rightarrow> real \<Rightarrow> real" where
  "atan2 b a =
     (if 0 < a then arctan (b / a)
      else if a < 0 \<and> 0 \<le> b then arctan (b / a) + pi
      else if a < 0 then arctan (b / a) - pi
      else if 0 < b then pi / 2
      else if b < 0 then - (pi / 2)
      else 0)"

section \<open>IEEE doubles\<close>

text \<open>
  A double is NaN, one of the two infinities, or a finite value. \<open>fl\<close> rounds a real
  number to the nearest double, ties to even: the significand has 53 bits, the exponent
  of a normal double is at least \<open>-1022\<close> with the subnormals below on the same grid, and
  a result of magnitude \<open>2^1024\<close> or more is an infinity. An arithmetic operation on
  finite doubles is the exact operation followed by \<open>fl\<close>; on NaN, the infinities and a
  zero divisor it follows IEEE 754, as JavaScript does. \<^verbatim>\<open>Math.max\<close> is NaN when an
  argument is, and \<^verbatim>\<open>Math.floor\<close> keeps NaN and the infinities.

  Zero has one sign in the model. The only divisor that can be zero in the code
  modelled with these operations is \<^verbatim>\<open>defense + 100\<close>, and a sum \<open>x + (-x)\<close> is
  \<open>+0\<close> under rounding to nearest.
\<close>

datatype number = NaN | NegInfinity | PosInfinity | Num real

definition pow2 :: "int \<Rightarrow> real" where
  "pow2 k = (if 0 \<le> k then 2 ^ nat k else 1 / 2 ^ nat (- k))"

text \<open>The exponent of the binade of \<open>x\<close>, held at \<open>-1022\<close> for the subnormals.\<close>

definition binade :: "real \<Rightarrow> int" where
  "binade x = max (- 1022) \<lfloor>log 2 \<bar>x\<bar>\<rfloor>"

definition round_even :: "real \<Rightarrow> int" where
  "round_even q =
     (let f = \<lfloor>q\<rfloor>; d = q - of_int f
      in if d < 1 / 2 then f else if 1 / 2 < d then f + 1 else if even f then f else f + 1)"

definition fl :: "real \<Rightarrow> number" where
  "fl x =
     (if x = 0 then Num 0
      else
        let u = pow2 (binade x - 52);
            r = of_int (round_even (x / u)) * u
        in if pow2 1024 \<le> \<bar>r\<bar> then (if 0 < x then PosInfinity else NegInfinity) else Num r)"

fun sign_n :: "number \<Rightarrow> real" where
  "sign_n NaN = 0"
| "sign_n PosInfinity = 1"
| "sign_n NegInfinity = - 1"
| "sign_n (Num a) = sgn a"

definition inf_n :: "real \<Rightarrow> number" where
  "inf_n s = (if 0 < s then PosInfinity else NegInfinity)"

fun add_n :: "number \<Rightarrow> number \<Rightarrow> number" where
  "add_n NaN b = NaN"
| "add_n a NaN = NaN"
| "add_n PosInfinity NegInfinity = NaN"
| "add_n NegInfinity PosInfinity = NaN"
| "add_n PosInfinity b = PosInfinity"
| "add_n NegInfinity b = NegInfinity"
| "add_n a PosInfinity = PosInfinity"
| "add_n a NegInfinity = NegInfinity"
| "add_n (Num a) (Num b) = fl (a + b)"

fun neg_n :: "number \<Rightarrow> number" where
  "neg_n NaN = NaN"
| "neg_n PosInfinity = NegInfinity"
| "neg_n NegInfinity = PosInfinity"
| "neg_n (Num a) = Num (- a)"

definition sub_n :: "number \<Rightarrow> number \<Rightarrow> number" where
  "sub_n a b = add_n a (neg_n b)"

fun mul_n :: "number \<Rightarrow> number \<Rightarrow> number" where
  "mul_n NaN b = NaN"
| "mul_n a NaN = NaN"
| "mul_n (Num a) (Num b) = fl (a * b)"
| "mul_n a b = (if sign_n a * sign_n b = 0 then NaN else inf_n (sign_n a * sign_n b))"

fun div_n :: "number \<Rightarrow> number \<Rightarrow> number" where
  "div_n NaN b = NaN"
| "div_n a NaN = NaN"
| "div_n (Num a) (Num b) =
     (if b = 0 then (if a = 0 then NaN else inf_n a) else fl (a / b))"
| "div_n (Num a) b = Num 0"
| "div_n a (Num b) = inf_n (sign_n a * (if b < 0 then - 1 else 1))"
| "div_n a b = NaN"

fun floor_n :: "number \<Rightarrow> number" where
  "floor_n (Num a) = Num (of_int \<lfloor>a\<rfloor>)"
| "floor_n a = a"

fun max_n :: "number \<Rightarrow> number \<Rightarrow> number" where
  "max_n NaN b = NaN"
| "max_n a NaN = NaN"
| "max_n PosInfinity b = PosInfinity"
| "max_n a PosInfinity = PosInfinity"
| "max_n NegInfinity b = b"
| "max_n a NegInfinity = a"
| "max_n (Num a) (Num b) = Num (max a b)"

text \<open>The comparison \<^verbatim>\<open>x <= 0\<close>: false for NaN.\<close>

fun le_zero :: "number \<Rightarrow> bool" where
  "le_zero (Num a) = (a \<le> 0)"
| "le_zero NegInfinity = True"
| "le_zero a = False"

section \<open>Enemy data (types/enemy.ts)\<close>

datatype EnemyType = ZOMBIE | BANDIT

datatype AIState = IDLE | PATROL | ALERT | CHASE | ATTACK | FLEE | DEAD

record EnemyStats =
  health :: real
  maxHealth :: real
  speed :: real
  damage :: real
  attackRange :: real
  detectionRange :: real
  attackSpeed :: real
  defense :: real

record EnemyData =
  id_enemy :: string
  type_enemy :: EnemyType
  position :: vec3
  rotation :: real
  stats :: EnemyStats
  state :: AIState
  target :: "string option"
  patrolPoints :: "vec3 list"
  currentPatrolIndex :: nat
  attackCooldown :: real
  alertTime :: real
  lastDamageTime :: real
  respawnTime :: real

text \<open>\<^verbatim>\<open>ENEMY_CONFIGS\<close>: the stats of each type without \<^verbatim>\<open>health\<close>.\<close>

record EnemyConfig =
  maxHealth_cfg :: real
  speed_cfg :: real
  damage_cfg :: real
  attackRange_cfg :: real
  detectionRange_cfg :: real
  attackSpeed_cfg :: real
  defense_cfg :: real

fun ENEMY_CONFIGS :: "EnemyType \<Rightarrow> EnemyConfig" where
  "ENEMY_CONFIGS ZOMBIE =
     \<lparr>maxHealth_cfg = 100, speed_cfg = 3, damage_cfg = 15, attackRange_cfg = 2,
      detectionRange_cfg = 15, attackSpeed_cfg = 8 / 10, defense_cfg = 5\<rparr>"
| "ENEMY_CONFIGS BANDIT =
     \<lparr>maxHealth_cfg = 80, speed_cfg = 4, damage_cfg = 8, attackRange_cfg = 5,
      detectionRange_cfg = 18, attackSpeed_cfg = 1, defense_cfg = 3\<rparr>"

fun EnemyType_value :: "EnemyType \<Rightarrow> string" where
  "EnemyType_value ZOMBIE = ''zombie''"
| "EnemyType_value BANDIT = ''bandit''"

record DamageEvent =
  enemyId :: string
  damage_event :: number
  isCritical :: bool
  position_event :: vec3

section \<open>The enemy store (stores/enemyStore.ts)\<close>

text \<open>
  The zustand store holds \<^verbatim>\<open>enemies\<close>, a JavaScript \<^verbatim>\<open>Map\<close>, and the list
  \<^verbatim>\<open>damageEvents\<close>. A \<^verbatim>\<open>Map\<close> iterates in insertion order and \<^verbatim>\<open>set\<close> on a
  key that is present keeps the key's place: that is an association list with
  \<^const>\<open>AList.update\<close>, read with \<^const>\<open>map_of\<close>. The module variable
  \<^verbatim>\<open>enemyIdCounter\<close> and the callbacks handed to \<^verbatim>\<open>setTimeout\<close> (the enemy to respawn
  and the delay in milliseconds) are state too, so they are fields of the same record.
  \<^verbatim>\<open>Date.now()\<close> is the parameter \<open>now\<close>.
\<close>

record EnemyStore =
  enemies :: "(string \<times> EnemyData) list"
  damageEvents :: "DamageEvent list"
  enemyIdCounter :: nat
  timeouts :: "(string \<times> real) list"

definition initialStore :: EnemyStore where
  "initialStore = \<lparr>enemies = [], damageEvents = [], enemyIdCounter = 0, timeouts = []\<rparr>"

datatype error = TypeError

text \<open>The decimal digits of the counter, as the template literal prints them.\<close>

fun decimal :: "nat \<Rightarrow> string" where
  "decimal n =
     (if n < 10 then [''0123456789'' ! n]
      else decimal (n div 10) @ [''0123456789'' ! (n mod 10)])"

declare decimal.simps [simp del]

definition spawnPatrolPoints :: "vec3 \<Rightarrow> vec3 list" where
  "spawnPatrolPoints p =
     map (\<lambda>i. let angle = (real i / 4) * pi * 2
               in Vector3 (vx p + cos angle * 10) (vy p) (vz p + sin angle * 10))
       [0 ..< 4]"

definition spawnEnemy :: "EnemyType \<Rightarrow> vec3 \<Rightarrow> EnemyStore \<Rightarrow> string \<times> EnemyStore" where
  "spawnEnemy ty p s =
     (let counter = enemyIdCounter s + 1;
          ident = ''enemy-'' @ EnemyType_value ty @ ''-'' @ decimal counter;
          config = ENEMY_CONFIGS ty;
          enemy = \<lparr>id_enemy = ident, type_enemy = ty, position = p, rotation = 0,
                   stats = \<lparr>health = maxHealth_cfg config, maxHealth = maxHealth_cfg config,
                            speed = speed_cfg config, damage = damage_cfg config,
                            attackRange = attackRange_cfg config,
                            detectionRange = detectionRange_cfg config,
                            attackSpeed = attackSpeed_cfg config,
                            defense = defense_cfg config\<rparr>,
                   state = PATROL, target = None, patrolPoints = spawnPatrolPoints p,
                   currentPatrolIndex = 0, attackCooldown = 0, alertTime = 0,
                   lastDamageTime = 0, respawnTime = 0\<rparr>
      in (ident, s\<lparr>enemies := AList.update ident enemy (enemies s),
                   enemyIdCounter := counter\<rparr>))"

text \<open>
  \<^verbatim>\<open>updateEnemy\<close> merges a \<^verbatim>\<open>Partial<EnemyData>\<close> into the record of a key that is
  present: \<open>EnemyUpdates\<close> gives for each field the new value or nothing, and
  \<open>applyUpdates\<close> is the spread \<^verbatim>\<open>{ ...enemy, ...updates }\<close>. \<^verbatim>\<open>updateEnemyState\<close> is
  the update with the state alone. Neither looks at the state the enemy is in.
\<close>

record EnemyUpdates =
  id_upd :: "string option"
  type_upd :: "EnemyType option"
  position_upd :: "vec3 option"
  rotation_upd :: "real option"
  stats_upd :: "EnemyStats option"
  state_upd :: "AIState option"
  target_upd :: "string option option"
  patrolPoints_upd :: "vec3 list option"
  currentPatrolIndex_upd :: "nat option"
  attackCooldown_upd :: "real option"
  alertTime_upd :: "real option"
  lastDamageTime_upd :: "real option"
  respawnTime_upd :: "real option"

definition noUpdates :: EnemyUpdates where
  "noUpdates =
     \<lparr>id_upd = None, type_upd = None, position_upd = None, rotation_upd = None,
      stats_upd = None, state_upd = None, target_upd = None, patrolPoints_upd = None,
      currentPatrolIndex_upd = None, attackCooldown_upd = None, alertTime_upd = None,
      lastDamageTime_upd = None, respawnTime_upd = None\<rparr>"

definition overwrite :: "'a option \<Rightarrow> 'a \<Rightarrow> 'a" where
  "overwrite u old = (case u of None \<Rightarrow> old | Some v \<Rightarrow> v)"

definition applyUpdates :: "EnemyData \<Rightarrow> EnemyUpdates \<Rightarrow> EnemyData" where
  "applyUpdates e u =
     \<lparr>id_enemy = overwrite (id_upd u) (id_enemy e),
      type_enemy = overwrite (type_upd u) (type_enemy e),
      position = overwrite (position_upd u) (position e),
      rotation = overwrite (rotation_upd u) (rotation e),
      stats = overwrite (stats_upd u) (stats e),
      state = overwrite (state_upd u) (state e),
      target = overwrite (target_upd u) (target e),
      patrolPoints = overwrite (patrolPoints_upd u) (patrolPoints e),
      currentPatrolIndex = overwrite (currentPatrolIndex_upd u) (currentPatrolIndex e),
      attackCooldown = overwrite (attackCooldown_upd u) (attackCooldown e),
      alertTime = overwrite (alertTime_upd u) (alertTime e),
      lastDamageTime = overwrite (lastDamageTime_upd u) (lastDamageTime e),
      respawnTime = overwrite (respawnTime_upd u) (respawnTime e)\<rparr>"

definition updateEnemy :: "string \<Rightarrow> EnemyUpdates \<Rightarrow> EnemyStore \<Rightarrow> EnemyStore" where
  "updateEnemy ident updates s =
     (case map_of (enemies s) ident of
        None \<Rightarrow> s
      | Some enemy \<Rightarrow> s\<lparr>enemies := AList.update ident (applyUpdates enemy updates) (enemies s)\<rparr>)"

definition updateEnemyState :: "string \<Rightarrow> AIState \<Rightarrow> EnemyStore \<Rightarrow> EnemyStore" where
  "updateEnemyState ident st s = updateEnemy ident (noUpdates\<lparr>state_upd := Some st\<rparr>) s"

text \<open>
  Lines 172 to 174 of \<^verbatim>\<open>damageEnemy\<close>: the damage left after the defense, computed
  in the doubles. The defense and the damage are numbers the program holds, so doubles.
\<close>

definition finalDamage :: "real \<Rightarrow> real \<Rightarrow> number" where
  "finalDamage def dmg =
     (let damageReduction = div_n (Num def) (add_n (Num def) (Num 100))
      in max_n (Num 1) (floor_n (mul_n (Num dmg) (sub_n (Num 1) damageReduction))))"

text \<open>
  Line 176, \<^verbatim>\<open>enemy.stats.health - finalDamage\<close>. A finite \<^verbatim>\<open>finalDamage\<close> is a whole
  number, and the difference is taken exactly: for a health that is a double below
  \<open>2^53\<close> the rounded difference gives the same new health (\<open>newHealth_rounded\<close>
  below). A health field holds a real number: where the code would store NaN, which
  takes a NaN \<^verbatim>\<open>finalDamage\<close> (a defense of \<open>-100\<close> with a damage of 0, where
  \<open>0 * Infinity\<close> is NaN), \<open>storeNumber\<close> keeps the old health.
\<close>

definition healthMinus :: "real \<Rightarrow> number \<Rightarrow> number" where
  "healthMinus h fd = (case fd of Num r \<Rightarrow> Num (h - r) | _ \<Rightarrow> sub_n (Num h) fd)"

definition storeNumber :: "real \<Rightarrow> number \<Rightarrow> real" where
  "storeNumber old x = (case x of Num v \<Rightarrow> v | _ \<Rightarrow> old)"

definition damageEnemy :: "string \<Rightarrow> real \<Rightarrow> bool \<Rightarrow> real \<Rightarrow> EnemyStore \<Rightarrow> EnemyStore" where
  "damageEnemy ident dmg isCrit now s =
     (case map_of (enemies s) ident of
        None \<Rightarrow> s
      | Some enemy \<Rightarrow>
          if state enemy = DEAD then s
          else
            let fd = finalDamage (defense (stats enemy)) dmg;
                newHealth = max_n (Num 0) (healthMinus (health (stats enemy)) fd);
                damageEvent = \<lparr>enemyId = ident, damage_event = fd, isCritical = isCrit,
                               position_event = position enemy\<rparr>;
                s1 = (case map_of (enemies s) ident of
                        None \<Rightarrow> s
                      | Some updatedEnemy \<Rightarrow>
                          s\<lparr>enemies :=
                              AList.update ident
                                (updatedEnemy\<lparr>stats := (stats updatedEnemy)
                                                 \<lparr>health := storeNumber (health (stats updatedEnemy)) newHealth\<rparr>,
                                               lastDamageTime := now,
                                               state := (if le_zero newHealth then DEAD
                                                         else state updatedEnemy)\<rparr>)
                                (enemies s),
                             damageEvents := damageEvents s @ [damageEvent]\<rparr>)
            in if le_zero newHealth then s1\<lparr>timeouts := timeouts s1 @ [(ident, 30000)]\<rparr> else s1)"

text \<open>
  What \<^verbatim>\<open>damageEnemy\<close> writes for a health \<open>h\<close> and a final damage \<open>fd\<close>: the stored
  health, and whether the enemy dies.
\<close>

definition healthAfter :: "real \<Rightarrow> number \<Rightarrow> real" where
  "healthAfter h fd = storeNumber h (max_n (Num 0) (healthMinus h fd))"

definition dies :: "real \<Rightarrow> number \<Rightarrow> bool" where
  "dies h fd = le_zero (max_n (Num 0) (healthMinus h fd))"

text \<open>
  \<^verbatim>\<open>respawnEnemy\<close> reads \<^verbatim>\<open>enemy.patrolPoints[0]\<close> and calls \<^verbatim>\<open>clone()\<close> on it: with
  no patrol point that is a call on \<^verbatim>\<open>undefined\<close>, a \<^verbatim>\<open>TypeError\<close> thrown before
  the store is written.
\<close>

definition respawnEnemy :: "string \<Rightarrow> EnemyStore \<Rightarrow> error + EnemyStore" where
  "respawnEnemy ident s =
     (case map_of (enemies s) ident of
        None \<Rightarrow> Inr s
      | Some enemy \<Rightarrow>
          (case patrolPoints enemy of
             [] \<Rightarrow> Inl TypeError
           | spawnPosition # _ \<Rightarrow>
               Inr (s\<lparr>enemies :=
                        AList.update ident
                          (enemy\<lparr>position := spawnPosition,
                                 stats := (stats enemy)\<lparr>health := maxHealth (stats enemy)\<rparr>,
                                 state := PATROL,
                                 target := None,
                                 currentPatrolIndex := 0,
                                 attackCooldown := 0,
                                 alertTime := 0\<rparr>)
                          (enemies s)\<rparr>)))"

section \<open>The enemy AI (systems/ai.ts)\<close>

text \<open>
  \<^verbatim>\<open>EnemyAI\<close> keeps its enemy record and mutates it; \<^verbatim>\<open>update\<close> reads the player's
  position from the player store and \<^verbatim>\<open>performAttack\<close> calls the store's
  \<^verbatim>\<open>takeDamage\<close>. The model passes the enemy and the two fields of the player store
  that the AI touches, and returns both. The private field \<^verbatim>\<open>playerPosition\<close> is
  \<^verbatim>\<open>Vector3 | null\<close>: the handlers take a \<open>vec3 option\<close> and keep their null checks.
\<close>

record PlayerState =
  position_player :: vec3
  health_player :: real

definition takeDamage :: "real \<Rightarrow> PlayerState \<Rightarrow> PlayerState" where
  "takeDamage amount p = p\<lparr>health_player := max 0 (health_player p - amount)\<rparr>"

definition transitionToState :: "AIState \<Rightarrow> EnemyData \<Rightarrow> EnemyData" where
  "transitionToState newState e =
     (if state e = newState then e
      else
        let e1 = e\<lparr>state := newState\<rparr>
        in (case newState of
              ALERT \<Rightarrow> e1\<lparr>alertTime := 1\<rparr>
            | CHASE \<Rightarrow> e1\<lparr>target := Some ''player''\<rparr>
            | PATROL \<Rightarrow> e1\<lparr>target := None\<rparr>
            | _ \<Rightarrow> e1))"

definition checkForPlayer :: "vec3 option \<Rightarrow> EnemyData \<Rightarrow> EnemyData" where
  "checkForPlayer playerPosition e =
     (case playerPosition of
        None \<Rightarrow> e
      | Some pp \<Rightarrow>
          let distance = distanceTo (position e) pp
          in if distance < detectionRange (stats e)
             then transitionToState ALERT (e\<lparr>target := Some ''player''\<rparr>)
             else e)"

text \<open>
  In \<^verbatim>\<open>moveTowards\<close>, \<^verbatim>\<open>direction.multiplyScalar(speed * delta)\<close> scales
  \<^verbatim>\<open>direction\<close> in place and returns it: \<^verbatim>\<open>movement\<close> and \<^verbatim>\<open>direction\<close> are one
  object, so the length test and the rotation read the scaled vector.
\<close>

definition moveTowards :: "vec3 \<Rightarrow> real \<Rightarrow> real \<Rightarrow> EnemyData \<Rightarrow> EnemyData" where
  "moveTowards targ delta spd e =
     (let direction = normalize_v (subVectors targ (position e));
          movement = multiplyScalar direction (spd * delta);
          e1 = e\<lparr>position := add_v (position e) movement\<rparr>
      in if length_v movement > 1 / 100
         then e1\<lparr>rotation := atan2 (vx movement) (vz movement)\<rparr>
         else e1)"

definition performAttack :: "vec3 option \<Rightarrow> EnemyData \<Rightarrow> PlayerState \<Rightarrow> PlayerState" where
  "performAttack playerPosition e pl =
     (case playerPosition of
        None \<Rightarrow> pl
      | Some pp \<Rightarrow>
          let distance = distanceTo (position e) pp
          in if distance > attackRange (stats e) then pl
             else takeDamage (damage (stats e)) pl)"

definition idle :: "vec3 option \<Rightarrow> EnemyData \<Rightarrow> EnemyData" where
  "idle playerPosition e = checkForPlayer playerPosition (transitionToState PATROL e)"

text \<open>
  \<^verbatim>\<open>patrol\<close> reads \<^verbatim>\<open>patrolPoints[currentPatrolIndex]\<close>; out of range that is
  \<^verbatim>\<open>undefined\<close>, and \<^verbatim>\<open>distanceTo(undefined)\<close> throws a \<^verbatim>\<open>TypeError\<close>.
\<close>

definition patrol :: "vec3 option \<Rightarrow> real \<Rightarrow> EnemyData \<Rightarrow> error + EnemyData" where
  "patrol playerPosition delta e =
     (if currentPatrolIndex e < length (patrolPoints e) then
        let targetPoint = patrolPoints e ! currentPatrolIndex e;
            distance = distanceTo (position e) targetPoint;
            e1 = (if distance < 1
                  then e\<lparr>currentPatrolIndex :=
                            (currentPatrolIndex e + 1) mod length (patrolPoints e)\<rparr>
                  else moveTowards targetPoint delta (speed (stats e) * (1 / 2)) e)
        in Inr (checkForPlayer playerPosition e1)
      else Inl TypeError)"

definition alert :: "vec3 option \<Rightarrow> EnemyData \<Rightarrow> EnemyData" where
  "alert playerPosition e =
     (let e1 = e\<lparr>alertTime := 1\<rparr>;
          e2 = (case playerPosition of
                  None \<Rightarrow> e1
                | Some pp \<Rightarrow>
                    let distance = distanceTo (position e1) pp
                    in if distance < detectionRange (stats e1)
                       then transitionToState CHASE e1
                       else e1)
      in if alertTime e2 \<le> 0 then transitionToState PATROL e2 else e2)"

definition chase :: "vec3 option \<Rightarrow> real \<Rightarrow> EnemyData \<Rightarrow> EnemyData" where
  "chase playerPosition delta e =
     (case playerPosition of
        None \<Rightarrow> transitionToState PATROL e
      | Some pp \<Rightarrow>
          let distance = distanceTo (position e) pp
          in if health (stats e) < maxHealth (stats e) * (2 / 10)
             then transitionToState FLEE e
             else if distance \<le> attackRange (stats e)
             then transitionToState ATTACK e
             else if distance > detectionRange (stats e) * (15 / 10)
             then transitionToState PATROL (e\<lparr>target := None\<rparr>)
             else moveTowards pp delta (speed (stats e)) e)"

definition attack :: "vec3 option \<Rightarrow> EnemyData \<Rightarrow> PlayerState \<Rightarrow> EnemyData \<times> PlayerState" where
  "attack playerPosition e pl =
     (case playerPosition of
        None \<Rightarrow> (transitionToState PATROL e, pl)
      | Some pp \<Rightarrow>
          let distance = distanceTo (position e) pp
          in if distance > attackRange (stats e) * (11 / 10)
             then (transitionToState CHASE e, pl)
             else if health (stats e) < maxHealth (stats e) * (2 / 10)
             then (transitionToState FLEE e, pl)
             else
               let direction = normalize_v (subVectors pp (position e));
                   e1 = e\<lparr>rotation := atan2 (vx direction) (vz direction)\<rparr>
               in if attackCooldown e1 \<le> 0
                  then (e1\<lparr>attackCooldown := 1 / attackSpeed (stats e1)\<rparr>,
                        performAttack playerPosition e1 pl)
                  else (e1, pl))"

definition flee :: "vec3 option \<Rightarrow> real \<Rightarrow> EnemyData \<Rightarrow> EnemyData" where
  "flee playerPosition delta e =
     (case playerPosition of
        None \<Rightarrow> transitionToState PATROL e
      | Some pp \<Rightarrow>
          let fleeDirection = normalize_v (subVectors (position e) pp);
              fleeTarget = add_v (position e) (multiplyScalar fleeDirection 10);
              e1 = moveTowards fleeTarget delta (speed (stats e) * (15 / 10)) e;
              distance = distanceTo (position e1) pp
          in if distance > detectionRange (stats e1) * 2
                \<or> health (stats e1) > maxHealth (stats e1) * (1 / 2)
             then transitionToState PATROL e1
             else e1)"

text \<open>Lines 28 to 36 of \<^verbatim>\<open>update\<close>: the two timers, each under its own guard.\<close>

definition updateTimers :: "real \<Rightarrow> EnemyData \<Rightarrow> EnemyData" where
  "updateTimers delta e =
     (let e1 = (if attackCooldown e > 0
                then e\<lparr>attackCooldown := attackCooldown e - delta\<rparr> else e)
      in if alertTime e1 > 0 then e1\<lparr>alertTime := alertTime e1 - delta\<rparr> else e1)"

text \<open>The \<^verbatim>\<open>switch\<close> of \<^verbatim>\<open>update\<close>; it has no case for DEAD.\<close>

definition dispatch ::
  "vec3 option \<Rightarrow> real \<Rightarrow> EnemyData \<Rightarrow> PlayerState \<Rightarrow> error + (EnemyData \<times> PlayerState)" where
  "dispatch playerPosition delta e pl =
     (case state e of
        IDLE \<Rightarrow> Inr (idle playerPosition e, pl)
      | PATROL \<Rightarrow>
          (case patrol playerPosition delta e of
             Inl err \<Rightarrow> Inl err
           | Inr e1 \<Rightarrow> Inr (e1, pl))
      | ALERT \<Rightarrow> Inr (alert playerPosition e, pl)
      | CHASE \<Rightarrow> Inr (chase playerPosition delta e, pl)
      | ATTACK \<Rightarrow> Inr (attack playerPosition e pl)
      | FLEE \<Rightarrow> Inr (flee playerPosition delta e, pl)
      | DEAD \<Rightarrow> Inr (e, pl))"

definition update :: "real \<Rightarrow> EnemyData \<Rightarrow> PlayerState \<Rightarrow> error + (EnemyData \<times> PlayerState)" where
  "update delta e pl =
     (if state e = DEAD then Inr (e, pl)
      else dispatch (Some (position_player pl)) delta (updateTimers delta e) pl)"

subsection \<open>The melee ray\<close>

text \<open>
  \<^verbatim>\<open>closestDistance\<close> starts at \<^verbatim>\<open>Number.POSITIVE_INFINITY\<close>. The body of the
  \<^verbatim>\<open>forEach\<close> is \<open>checkEnemyHit_step\<close>; the loop runs over the entries of the map in
  insertion order.
\<close>

datatype bound = POSITIVE_INFINITY | Finite real

fun less_bound :: "real \<Rightarrow> bound \<Rightarrow> bool" where
  "less_bound a POSITIVE_INFINITY = True"
| "less_bound a (Finite b) = (a < b)"

definition checkEnemyHit_step ::
  "vec3 \<Rightarrow> vec3 \<Rightarrow> real \<Rightarrow> (string \<times> real) option \<times> bound \<Rightarrow> string \<times> EnemyData
     \<Rightarrow> (string \<times> real) option \<times> bound" where
  "checkEnemyHit_step rayOrigin rayDirection maxDistance acc entry =
     (let enemy = snd entry; ident = fst entry in
      if state enemy = DEAD then acc
      else
        let enemyRadius = 1;
            toEnemy = subVectors (position enemy) rayOrigin;
            projectionLength = dot toEnemy rayDirection
        in if projectionLength < 0 then acc
           else if projectionLength > maxDistance then acc
           else
             let closestPoint = add_v rayOrigin (multiplyScalar rayDirection projectionLength);
                 distanceToRay = distanceTo closestPoint (position enemy)
             in if distanceToRay \<le> enemyRadius \<and> less_bound projectionLength (snd acc)
                then (Some (ident, projectionLength), Finite projectionLength)
                else acc)"

definition checkEnemyHit ::
  "vec3 \<Rightarrow> vec3 \<Rightarrow> real \<Rightarrow> EnemyStore \<Rightarrow> (string \<times> real) option" where
  "checkEnemyHit rayOrigin rayDirection maxDistance s =
     fst (foldl (checkEnemyHit_step rayOrigin rayDirection maxDistance)
            (None, POSITIVE_INFINITY) (enemies s))"

section \<open>Melee attacks (systems/combat.ts, types/weapons.ts)\<close>

datatype WeaponType = melee | ranged

record Weapon =
  id_weapon :: string
  name_weapon :: string
  type_weapon :: WeaponType
  damage_weapon :: real
  range_weapon :: real
  attackSpeed_weapon :: real
  staminaCost :: "real option"
  ammo :: "real option"
  maxAmmo :: "real option"
  totalAmmo :: "real option"
  reloadTime :: "real option"
  critChance :: "real option"
  critMultiplier :: "real option"

definition sword :: Weapon where
  "sword =
     \<lparr>id_weapon = ''sword'', name_weapon = ''Iron Sword'', type_weapon = melee,
      damage_weapon = 25, range_weapon = 2, attackSpeed_weapon = 15 / 10,
      staminaCost = Some 10, ammo = None, maxAmmo = None, totalAmmo = None,
      reloadTime = None, critChance = Some (15 / 100), critMultiplier = Some 2\<rparr>"

definition pistol :: Weapon where
  "pistol =
     \<lparr>id_weapon = ''pistol'', name_weapon = ''9mm Pistol'', type_weapon = ranged,
      damage_weapon = 15, range_weapon = 50, attackSpeed_weapon = 3,
      staminaCost = None, ammo = Some 12, maxAmmo = Some 12, totalAmmo = Some 60,
      reloadTime = Some (15 / 10), critChance = Some (1 / 10), critMultiplier = Some (25 / 10)\<rparr>"

text \<open>
  \<^verbatim>\<open>x || d\<close> on an optional number: \<^verbatim>\<open>undefined\<close> and \<^verbatim>\<open>0\<close> are falsy, every other
  real number is kept.
\<close>

definition or_default :: "real option \<Rightarrow> real \<Rightarrow> real" where
  "or_default v d = (case v of None \<Rightarrow> d | Some a \<Rightarrow> if a = 0 then d else a)"

text \<open>
  The camera is the three.js \<^verbatim>\<open>Camera\<close>: its position and its quaternion.
  \<^verbatim>\<open>applyQuaternion\<close> is the rotation three.js computes.
\<close>

datatype quat = Quaternion (qx: real) (qy: real) (qz: real) (qw: real)

record Camera =
  position_camera :: vec3
  quaternion :: quat

definition applyQuaternion :: "vec3 \<Rightarrow> quat \<Rightarrow> vec3" where
  "applyQuaternion v q =
     (let tx = 2 * (qy q * vz v - qz q * vy v);
          ty = 2 * (qz q * vx v - qx q * vz v);
          tz = 2 * (qx q * vy v - qy q * vx v)
      in Vector3 (vx v + qw q * tx + qy q * tz - qz q * ty)
                 (vy v + qw q * ty + qz q * tx - qx q * tz)
                 (vz v + qw q * tz + qx q * ty - qy q * tx))"

record MeleeResult =
  hit :: bool
  damage_result :: "real option"
  isCrit_result :: "bool option"

text \<open>\<^verbatim>\<open>Math.random()\<close> is the parameter \<open>rnd\<close>, a number in \<open>[0, 1)\<close>.\<close>

definition performMeleeAttack ::
  "Weapon \<Rightarrow> Camera \<Rightarrow> real \<Rightarrow> real \<Rightarrow> EnemyStore \<Rightarrow> MeleeResult \<times> EnemyStore" where
  "performMeleeAttack weapon camera rnd now s =
     (let rayOrigin = position_camera camera;
          rayDirection = normalize_v (applyQuaternion (Vector3 0 0 (- 1)) (quaternion camera))
      in (case checkEnemyHit rayOrigin rayDirection (range_weapon weapon) s of
            Some h \<Rightarrow>
              let isCrit = (rnd < or_default (critChance weapon) (1 / 10));
                  dmg = (if isCrit
                         then damage_weapon weapon * or_default (critMultiplier weapon) 2
                         else damage_weapon weapon)
              in (\<lparr>hit = True, damage_result = Some dmg, isCrit_result = Some isCrit\<rparr>,
                  damageEnemy (fst h) dmg isCrit now s)
          | None \<Rightarrow> (\<lparr>hit = False, damage_result = None, isCrit_result = None\<rparr>, s)))"

section \<open>Projectiles (components/game/Projectile.tsx)\<close>

text \<open>
  The state of one projectile component: the \<^verbatim>\<open>lifetime\<close> state, the refs
  \<^verbatim>\<open>hasExpired\<close> and \<^verbatim>\<open>checkedEnemies\<close>, and how often \<^verbatim>\<open>onExpire\<close> was called.
  The physics engine owns the position: each frame gets the translation of the rigid
  body, \<open>None\<close> while the ref is not set. The updater given to \<^verbatim>\<open>setLifetime\<close> is taken
  to run within the frame; nothing in the frame reads \<^verbatim>\<open>hasExpired\<close> between it and
  the loop over the enemies. The loop runs over the map read before it, and
  \<^verbatim>\<open>damageEnemy\<close> is called without \<^verbatim>\<open>isCritical\<close>, which defaults to false.
\<close>

record Projectile =
  lifetime :: real
  hasExpired :: bool
  checkedEnemies :: "string set"
  onExpireCalls :: nat

definition newProjectile :: Projectile where
  "newProjectile = \<lparr>lifetime = 5, hasExpired = False, checkedEnemies = {}, onExpireCalls = 0\<rparr>"

definition expire :: "Projectile \<Rightarrow> Projectile" where
  "expire p =
     (if \<not> hasExpired p then p\<lparr>hasExpired := True, onExpireCalls := onExpireCalls p + 1\<rparr>
      else p)"

definition projectileHit ::
  "real \<Rightarrow> vec3 \<Rightarrow> real \<Rightarrow> Projectile \<times> EnemyStore \<Rightarrow> string \<times> EnemyData
     \<Rightarrow> Projectile \<times> EnemyStore" where
  "projectileHit dmg pos now acc entry =
     (let p = fst acc; s = snd acc; enemyId = fst entry; enemy = snd entry in
      if state enemy = DEAD \<or> enemyId \<in> checkedEnemies p then acc
      else
        let distance = distanceTo pos (position enemy)
        in if distance < 15 / 10
           then (expire (p\<lparr>checkedEnemies := insert enemyId (checkedEnemies p)\<rparr>),
                 damageEnemy enemyId dmg False now s)
           else acc)"

definition projectileFrame ::
  "real \<Rightarrow> vec3 option \<Rightarrow> real \<Rightarrow> real \<Rightarrow> Projectile \<times> EnemyStore \<Rightarrow> Projectile \<times> EnemyStore" where
  "projectileFrame dmg body delta now st =
     (let p = fst st; s = snd st in
      if hasExpired p then st
      else
        let newLifetime = max 0 (lifetime p - delta);
            p1 = (if newLifetime \<le> 0 then expire p else p)\<lparr>lifetime := newLifetime\<rparr>
        in (case body of
              None \<Rightarrow> (p1, s)
            | Some pos \<Rightarrow> foldl (projectileHit dmg pos now) (p1, s) (enemies s)))"

section \<open>The health invariant\<close>

definition healthInvariant :: "EnemyStore \<Rightarrow> bool" where
  "healthInvariant s =
     (\<forall>entry \<in> set (enemies s).
        0 \<le> health (stats (snd entry)) \<and> health (stats (snd entry)) \<le> maxHealth (stats (snd entry)))"

section \<open>The hit test in the spec's words\<close>

text \<open>
  The projection of an enemy on the ray, its distance from the ray at that parameter,
  and the enemies that can be hit: alive, projected within \<open>[0, maxDistance]\<close>, and
  no farther than 1 from the ray. \<open>hit_inv\<close> is the loop invariant of
  \<^verbatim>\<open>checkEnemyHit\<close> over the entries read so far.
\<close>

definition projection :: "vec3 \<Rightarrow> vec3 \<Rightarrow> EnemyData \<Rightarrow> real" where
  "projection rayOrigin rayDirection e = dot (subVectors (position e) rayOrigin) rayDirection"

definition perpendicular :: "vec3 \<Rightarrow> vec3 \<Rightarrow> EnemyData \<Rightarrow> real" where
  "perpendicular rayOrigin rayDirection e =
     distanceTo (add_v rayOrigin (multiplyScalar rayDirection (projection rayOrigin rayDirection e)))
       (position e)"

definition qualifies :: "vec3 \<Rightarrow> vec3 \<Rightarrow> real \<Rightarrow> EnemyData \<Rightarrow> bool" where
  "qualifies rayOrigin rayDirection maxDistance e =
     (state e \<noteq> DEAD \<and> 0 \<le> projection rayOrigin rayDirection e \<and>
      projection rayOrigin rayDirection e \<le> maxDistance \<and>
      perpendicular rayOrigin rayDirection e \<le> 1)"

definition hit_inv ::
  "vec3 \<Rightarrow> vec3 \<Rightarrow> real \<Rightarrow> (string \<times> EnemyData) list \<Rightarrow> (string \<times> real) option \<times> bound \<Rightarrow> bool" where
  "hit_inv ro rd m xs acc =
     (case fst acc of
        None \<Rightarrow> snd acc = POSITIVE_INFINITY \<and> (\<forall>entry \<in> set xs. \<not> qualifies ro rd m (snd entry))
      | Some h \<Rightarrow>
          snd acc = Finite (snd h) \<and>
          (\<exists>entry \<in> set xs. fst entry = fst h \<and> qualifies ro rd m (snd entry) \<and>
                               snd h = projection ro rd (snd entry)) \<and>
          (\<forall>entry \<in> set xs. qualifies ro rd m (snd entry) \<longrightarrow> snd h \<le> projection ro rd (snd entry)))"

text \<open>Line 12 of \<^verbatim>\<open>performMeleeAttack\<close>: the direction of the ray.\<close>

definition rayOf :: "Camera \<Rightarrow> vec3" where
  "rayOf camera = normalize_v (applyQuaternion (Vector3 0 0 (- 1)) (quaternion camera))"

section \<open>What a projectile frame hits\<close>

text \<open>
  The entries of the map that a frame at position \<open>pos\<close> hits: alive, not in the
  projectile's set, and nearer than 1.5. \<open>hitEvent\<close> is the damage event that
  \<^verbatim>\<open>damageEnemy\<close> appends for such an entry.
\<close>

definition inRange :: "vec3 \<Rightarrow> Projectile \<Rightarrow> string \<times> EnemyData \<Rightarrow> bool" where
  "inRange pos p entry =
     (state (snd entry) \<noteq> DEAD \<and> fst entry \<notin> checkedEnemies p \<and>
      distanceTo pos (position (snd entry)) < 15 / 10)"

definition targets :: "vec3 \<Rightarrow> Projectile \<Rightarrow> EnemyStore \<Rightarrow> (string \<times> EnemyData) list" where
  "targets pos p s = filter (inRange pos p) (enemies s)"

definition hitEvent :: "real \<Rightarrow> string \<times> EnemyData \<Rightarrow> DamageEvent" where
  "hitEvent dmg entry =
     \<lparr>enemyId = fst entry, damage_event = finalDamage (defense (stats (snd entry))) dmg,
      isCritical = False, position_event = position (snd entry)\<rparr>"

section \<open>Example data\<close>

text \<open>The first zombie that \<^verbatim>\<open>Scene\<close> spawns, at \<open>(10, 1, 0)\<close>, and the store holding it.\<close>

definition zombie1 :: EnemyData where
  "zombie1 =
     \<lparr>id_enemy = ''enemy-zombie-1'', type_enemy = ZOMBIE, position = Vector3 10 1 0,
      rotation = 0,
      stats = \<lparr>health = 100, maxHealth = 100, speed = 3, damage = 15, attackRange = 2,
               detectionRange = 15, attackSpeed = 8 / 10, defense = 5\<rparr>,
      state = PATROL, target = None,
      patrolPoints = [Vector3 20 1 0, Vector3 10 1 10, Vector3 0 1 0, Vector3 10 1 (- 10)],
      currentPatrolIndex = 0, attackCooldown = 0, alertTime = 0, lastDamageTime = 0,
      respawnTime = 0\<rparr>"

definition store1 :: EnemyStore where
  "store1 = \<lparr>enemies = [(''enemy-zombie-1'', zombie1)], damageEvents = [],
             enemyIdCounter = 1, timeouts = []\<rparr>"

text \<open>The same zombie with a defense of 400.\<close>

definition zombieArmoured :: EnemyData where
  "zombieArmoured = zombie1\<lparr>stats := (stats zombie1)\<lparr>defense := 400\<rparr>\<rparr>"

definition storeArmoured :: EnemyStore where
  "storeArmoured = store1\<lparr>enemies := [(''enemy-zombie-1'', zombieArmoured)]\<rparr>"

text \<open>
  Two zombies on the ray from the origin along \<open>(0, 0, -1)\<close>: the first on the ray at
  1.5, the second half a unit beside it at 1. \<open>enemyAt p\<close> is the store with one zombie
  at \<open>p\<close>.
\<close>

definition store2 :: EnemyStore where
  "store2 =
     store1\<lparr>enemies := [(''enemy-zombie-1'', zombie1\<lparr>position := Vector3 0 0 (- (3 / 2))\<rparr>),
                          (''enemy-zombie-2'', zombie1\<lparr>id_enemy := ''enemy-zombie-2'',
                                                       position := Vector3 (1 / 2) 0 (- 1)\<rparr>)]\<rparr>"

definition enemyAt :: "vec3 \<Rightarrow> EnemyStore" where
  "enemyAt p = store1\<lparr>enemies := [(''enemy-zombie-1'', zombie1\<lparr>position := p\<rparr>)]\<rparr>"

text \<open>
  Two players, one near the zombie's spawn point and one far from it, and the zombie in
  the states the theorems below run it in.
\<close>

definition player0 :: PlayerState where
  "player0 = \<lparr>position_player = Vector3 0 2 0, health_player = 100\<rparr>"

definition playerFar :: PlayerState where
  "playerFar = \<lparr>position_player = Vector3 100 1 0, health_player = 100\<rparr>"

definition zombieAlert :: EnemyData where
  "zombieAlert = zombie1\<lparr>state := ALERT, target := Some ''player'', alertTime := 3 / 10\<rparr>"

definition zombieChasing :: EnemyData where
  "zombieChasing = zombie1\<lparr>state := CHASE, target := Some ''player'', attackCooldown := 1 / 100,
                            alertTime := 1 / 100\<rparr>"

definition zombieWounded :: EnemyData where
  "zombieWounded = zombie1\<lparr>position := Vector3 0 2 1, state := CHASE, target := Some ''player'',
                            stats := (stats zombie1)\<lparr>health := 15\<rparr>\<rparr>"

definition zombieDead :: EnemyData where
  "zombieDead = zombie1\<lparr>state := DEAD, stats := (stats zombie1)\<lparr>health := 0\<rparr>,
                         lastDamageTime := 7\<rparr>"

definition storeDead :: EnemyStore where
  "storeDead =
     \<lparr>enemies = [(''enemy-zombie-1'', zombieDead)],
      damageEvents = [\<lparr>enemyId = ''enemy-zombie-1'', damage_event = Num 952, isCritical = False,
                       position_event = Vector3 10 1 0\<rparr>],
      enemyIdCounter = 1, timeouts = [(''enemy-zombie-1'', 30000)]\<rparr>"

text \<open>
  The sword with both crit fields set to 0, the sword with a crit chance of \<open>-1\<close>, and a
  camera at the origin looking along \<open>(0, 0, -1)\<close>.
\<close>

definition swordZero :: Weapon where
  "swordZero = sword\<lparr>critChance := Some 0, critMultiplier := Some 0\<rparr>"

definition swordNegative :: Weapon where
  "swordNegative = sword\<lparr>critChance := Some (- 1)\<rparr>"

definition camera0 :: Camera where
  "camera0 = \<lparr>position_camera = Vector3 0 0 0, quaternion = Quaternion 0 0 0 1\<rparr>"

text \<open>Two zombies one unit apart.\<close>

definition store3 :: EnemyStore where
  "store3 =
     store1\<lparr>enemies := [(''enemy-zombie-1'', zombie1\<lparr>position := Vector3 0 1 0\<rparr>),
                          (''enemy-zombie-2'', zombie1\<lparr>id_enemy := ''enemy-zombie-2'',
                                                       position := Vector3 1 1 0\<rparr>)]\<rparr>"

section \<open>Spawning\<close>

lemma spawnPatrolPoints_eq:
  "spawnPatrolPoints p =
     [Vector3 (vx p + 10) (vy p) (vz p), Vector3 (vx p) (vy p) (vz p + 10),
      Vector3 (vx p - 10) (vy p) (vz p), Vector3 (vx p) (vy p) (vz p - 10)]"
proof -
  have u: "[0 ..< 4] = [0, 1, 2, 3::nat]" by (simp add: upt_rec)
  have c3: "cos (pi * 3 / 2) = 0" using cos_3over2_pi by (simp add: mult.commute)
  have s3: "sin (pi * 3 / 2) = - 1" using sin_3over2_pi by (simp add: mult.commute)
  show ?thesis
    unfolding spawnPatrolPoints_def u by (simp add: Let_def c3 s3)
qed

lemma spawn_zombie1:
  "spawnEnemy ZOMBIE (Vector3 10 1 0) initialStore = (''enemy-zombie-1'', store1)"
  by (simp add: spawnEnemy_def initialStore_def store1_def zombie1_def Let_def
      spawnPatrolPoints_eq decimal.simps)

section \<open>Rounding to a double\<close>

lemma pow2_powr: "pow2 k = 2 powr (real_of_int k)"
  by (simp add: pow2_def powr_int)

lemma pow2_pos [simp]: "0 < pow2 k"
  by (simp add: pow2_def)

lemma pow2_nonneg [simp]: "0 \<le> pow2 k"
  by (simp add: pow2_def)

lemma pow2_nonzero [simp]: "pow2 k \<noteq> 0"
  by (simp add: pow2_def)

lemma pow2_abs [simp]: "\<bar>pow2 k\<bar> = pow2 k"
  by (simp add: pow2_def)

lemma pow2_add: "pow2 (a + b) = pow2 a * pow2 b"
  by (simp add: pow2_powr powr_add)

lemma pow2_mono: "a \<le> b \<Longrightarrow> pow2 a \<le> pow2 b"
  by (simp add: pow2_powr)

lemma pow2_strict_mono: "a < b \<Longrightarrow> pow2 a < pow2 b"
  by (simp add: pow2_powr)

lemma binade_eq:
  assumes "pow2 k \<le> \<bar>x\<bar>" and "\<bar>x\<bar> < pow2 (k + 1)" and "- 1022 \<le> k"
  shows "binade x = k"
proof -
  have "0 < \<bar>x\<bar>" using assms(1) pow2_pos [of k] by linarith
  then have "\<lfloor>log 2 \<bar>x\<bar>\<rfloor> = k"
    using assms(1,2) by (simp add: floor_log_eq_powr_iff pow2_powr)
  then show ?thesis using assms(3) by (simp add: binade_def)
qed

lemma round_even_bounds:
  "of_int (round_even q) \<le> q + 1 / 2" "q - 1 / 2 \<le> of_int (round_even q)"
  by (auto simp: round_even_def Let_def) linarith+

lemma round_even_of_int [simp]: "round_even (of_int n) = n"
  by (simp add: round_even_def)

lemma abs_round_even_le:
  assumes "\<bar>q\<bar> \<le> of_int n"
  shows "\<bar>real_of_int (round_even q)\<bar> \<le> of_int n"
proof -
  have "real_of_int (round_even q) < of_int n + 1" "- real_of_int n - 1 < of_int (round_even q)"
    using round_even_bounds [of q] assms by linarith+
  then have "round_even q < n + 1" "- n - 1 < round_even q"
    by linarith+
  then have "\<bar>round_even q\<bar> \<le> n" by linarith
  then show ?thesis by linarith
qed

text \<open>
  How \<open>fl\<close> is evaluated: in the binade \<open>[2^k, 2^(k+1))\<close> the doubles are the multiples
  of \<open>2^(k-52)\<close>.
\<close>

lemma fl_binade:
  assumes "pow2 k \<le> \<bar>x\<bar>" and "\<bar>x\<bar> < pow2 (k + 1)" and "- 1022 \<le> k" and "k \<le> 1022"
  shows "fl x = Num (of_int (round_even (x / pow2 (k - 52))) * pow2 (k - 52))"
proof -
  let ?u = "pow2 (k - 52)"
  let ?r = "of_int (round_even (x / ?u)) * ?u"
  have x0: "x \<noteq> 0"
  proof
    assume "x = 0"
    then have "pow2 k \<le> 0" using assms(1) by simp
    then show False using pow2_pos [of k] by linarith
  qed
  have b: "binade x = k" by (rule binade_eq [OF assms(1,2,3)])
  have p53: "pow2 53 = 2 ^ 53" by (simp add: pow2_def)
  have "k + 1 = 53 + (k - 52)" by simp
  then have "pow2 (k + 1) = pow2 53 * ?u" by (simp only: pow2_add)
  then have s: "pow2 (k + 1) = 2 ^ 53 * ?u" by (simp only: p53)
  have "\<bar>x / ?u\<bar> = \<bar>x\<bar> / ?u" by simp
  also have "\<dots> \<le> 2 ^ 53" using assms(2) s by (simp add: field_simps)
  finally have q: "\<bar>x / ?u\<bar> \<le> of_int (2 ^ 53)" by simp
  have "\<bar>?r\<bar> = \<bar>real_of_int (round_even (x / ?u))\<bar> * ?u" by (simp add: abs_mult)
  also have "\<dots> \<le> of_int (2 ^ 53) * ?u"
    using abs_round_even_le [OF q] by (intro mult_right_mono) simp_all
  also have "\<dots> = pow2 (k + 1)" using s by simp
  also have "\<dots> < pow2 1024" using assms(4) by (intro pow2_strict_mono) simp
  finally have "\<not> pow2 1024 \<le> \<bar>?r\<bar>" by simp
  then show ?thesis using x0 b by (simp add: fl_def Let_def)
qed

lemma fl_not_NaN [simp]: "fl x \<noteq> NaN"
  by (simp add: fl_def Let_def)

text \<open>
  A double below \<open>2^53\<close> lies on a grid no coarser than the whole numbers, and so does
  its difference with a whole number: a positive difference is a double, and a
  difference that is not positive rounds to a double that is not positive.
\<close>

lemma pow2_of_int:
  assumes "0 \<le> k"
  shows "pow2 k = of_int (2 ^ nat k)"
  using assms by (simp add: pow2_def)

lemma fl_nonpos:
  assumes "x \<le> 0"
  shows "fl x = NegInfinity \<or> (\<exists>w. fl x = Num w \<and> w \<le> 0)"
proof (cases "x = 0")
  case True
  then show ?thesis by (simp add: fl_def)
next
  case False
  let ?u = "pow2 (binade x - 52)"
  have "x / ?u < 0" using assms False by (simp add: divide_neg_pos)
  then have "real_of_int (round_even (x / ?u)) < 1" using round_even_bounds(1) [of "x / ?u"] by linarith
  then have "round_even (x / ?u) \<le> 0" by linarith
  then have "of_int (round_even (x / ?u)) * ?u \<le> 0"
    by (simp add: mult_nonpos_nonneg)
  then show ?thesis using assms False by (auto simp: fl_def Let_def)
qed

lemma binade_le_52:
  assumes "0 < h" and "h < 2 ^ 53"
  shows "binade h \<le> 52"
proof -
  have "h < 2 powr 53" using assms(2) by simp
  then have "log 2 h < 53" using assms(1) by (simp add: log_less_iff)
  then have "\<lfloor>log 2 h\<rfloor> < 53" by linarith
  then show ?thesis using assms(1) by (simp add: binade_def)
qed

lemma binade_mono:
  assumes "0 < x" and "x \<le> h"
  shows "binade x \<le> binade h"
proof -
  have "log 2 x \<le> log 2 h" using assms by simp
  then have "\<lfloor>log 2 x\<rfloor> \<le> \<lfloor>log 2 h\<rfloor>" by (rule floor_mono)
  then show ?thesis using assms by (simp add: binade_def)
qed

lemma double_grid:
  assumes "fl h = Num h" and "h \<noteq> 0"
  shows "h = of_int (round_even (h / pow2 (binade h - 52))) * pow2 (binade h - 52)"
  using assms by (simp add: fl_def Let_def split: if_splits)

lemma fl_multiple:
  assumes "x = of_int N * pow2 (binade x - 52)" and "\<bar>x\<bar> < pow2 1024"
  shows "fl x = Num x"
proof (cases "x = 0")
  case True
  then show ?thesis by (simp add: fl_def)
next
  case False
  have "x / pow2 (binade x - 52) = of_int N"
    using assms(1) by (metis nonzero_mult_div_cancel_right pow2_nonzero)
  then have "of_int (round_even (x / pow2 (binade x - 52))) * pow2 (binade x - 52) = x"
    using assms(1) by simp
  then show ?thesis using False assms(2) by (simp add: fl_def Let_def)
qed

lemma fl_sub_exact:
  assumes "fl h = Num h" and "h < 2 ^ 53" and "0 < h - of_int n" and "0 \<le> n"
  shows "fl (h - of_int n) = Num (h - of_int n)"
proof -
  let ?x = "h - of_int n"
  let ?eh = "binade h" and ?ex = "binade ?x"
  have "0 \<le> real_of_int n" using assms(4) by simp
  then have hpos: "0 < h" using assms(3) by linarith
  have xh: "?x \<le> h" using assms(4) by simp
  have eh: "?eh \<le> 52" by (rule binade_le_52 [OF hpos assms(2)])
  have ex: "?ex \<le> ?eh" by (rule binade_mono [OF assms(3) xh])
  define m where "m = round_even (h / pow2 (?eh - 52))"
  have hm: "h = of_int m * pow2 (?eh - 52)"
    unfolding m_def using double_grid [OF assms(1)] hpos by simp
  have "pow2 ((52 - ?eh) + (?eh - 52)) = pow2 (52 - ?eh) * pow2 (?eh - 52)" by (rule pow2_add)
  then have one: "1 = of_int (2 ^ nat (52 - ?eh)) * pow2 (?eh - 52)"
    using eh by (simp add: pow2_of_int)
  have "pow2 ((?eh - ?ex) + (?ex - 52)) = pow2 (?eh - ?ex) * pow2 (?ex - 52)" by (rule pow2_add)
  then have uh: "pow2 (?eh - 52) = of_int (2 ^ nat (?eh - ?ex)) * pow2 (?ex - 52)"
    using ex by (simp add: pow2_of_int)
  have "?x = of_int m * pow2 (?eh - 52) - of_int n * (of_int (2 ^ nat (52 - ?eh)) * pow2 (?eh - 52))"
    using hm one by simp
  also have "\<dots> = of_int (m - n * 2 ^ nat (52 - ?eh)) * pow2 (?eh - 52)"
    by (simp add: algebra_simps)
  also have "\<dots> = of_int ((m - n * 2 ^ nat (52 - ?eh)) * 2 ^ nat (?eh - ?ex)) * pow2 (?ex - 52)"
    by (subst uh) (simp add: algebra_simps)
  finally have grid: "?x = of_int ((m - n * 2 ^ nat (52 - ?eh)) * 2 ^ nat (?eh - ?ex)) * pow2 (?ex - 52)" .
  have "\<bar>?x\<bar> < 2 ^ 53" using assms(2,3) xh by simp
  also have "(2::real) ^ 53 \<le> pow2 1024" by (simp add: pow2_def)
  finally have small: "\<bar>?x\<bar> < pow2 1024" .
  show ?thesis by (rule fl_multiple [OF grid small])
qed

section \<open>Damage mitigation\<close>

text \<open>
  The factor \<open>1 - 5 / 105\<close> of a defense of 5, as the doubles compute it, and the final
  damage at the inputs used below.
\<close>

lemma reduction_5:
  "sub_n (Num 1) (div_n (Num 5) (add_n (Num 5) (Num 100)))
     = Num (4289142502257615 / 4503599627370496)"
  apply (simp add: sub_n_def)
  apply (simp add: fl_binade [where k = 6] pow2_def round_even_def)
  apply (simp add: fl_binade [where k = "- 5"] pow2_def round_even_def)
  apply (simp add: fl_binade [where k = "- 1"] pow2_def round_even_def)
  done

lemma finalDamage_5_25: "finalDamage 5 25 = Num 23"
  unfolding finalDamage_def Let_def reduction_5
  by (simp add: fl_binade [where k = 4] pow2_def round_even_def)

lemma finalDamage_5_15: "finalDamage 5 15 = Num 14"
  unfolding finalDamage_def Let_def reduction_5
  by (simp add: fl_binade [where k = 3] pow2_def round_even_def)

lemma finalDamage_5_1000: "finalDamage 5 1000 = Num 952"
  unfolding finalDamage_def Let_def reduction_5
  by (simp add: fl_binade [where k = 9] pow2_def round_even_def)

lemma finalDamage_400_10: "finalDamage 400 10 = Num 1"
  apply (simp add: finalDamage_def sub_n_def)
  apply (simp add: fl_binade [where k = 8] pow2_def round_even_def)
  apply (simp add: fl_binade [where k = "- 1"] pow2_def round_even_def)
  apply (simp add: fl_binade [where k = "- 3"] pow2_def round_even_def)
  apply (simp add: fl_binade [where k = 0] pow2_def round_even_def)
  done

text \<open>
  A defense of \<open>-100\<close> makes the divisor 0 and the reduction \<open>-Infinity\<close>: a positive
  damage becomes infinite, a negative one 1, and a damage of 0 gives NaN.
\<close>

lemma finalDamage_zero_divisor:
  "finalDamage (- 100) 25 = PosInfinity"
  "finalDamage (- 100) (- 3) = Num 1"
  "finalDamage (- 100) 0 = NaN"
  by (simp_all add: finalDamage_def sub_n_def fl_def inf_n_def)

lemma max_n_1_cases:
  "max_n (Num 1) x = NaN \<or> max_n (Num 1) x = PosInfinity \<or>
   (\<exists>v. max_n (Num 1) x = Num v \<and> 1 \<le> v)"
  by (cases x) simp_all

lemma finalDamage_cases:
  "finalDamage d r = NaN \<or> finalDamage d r = PosInfinity \<or>
   (\<exists>v. finalDamage d r = Num v \<and> 1 \<le> v)"
  by (simp add: finalDamage_def Let_def max_n_1_cases)

lemma add_n_Num_not_NaN [simp]: "add_n (Num a) (Num b) \<noteq> NaN"
  by simp

text \<open>The reduction \<open>defense / (defense + 100)\<close> is never NaN, so neither is the factor.\<close>

lemma factor_not_NaN:
  "sub_n (Num 1) (div_n (Num d) (add_n (Num d) (Num 100))) \<noteq> NaN"
proof (cases "fl (d + 100)")
  case (Num a)
  have "a = 0 \<longrightarrow> d \<noteq> 0"
  proof
    assume "a = 0"
    show "d \<noteq> 0"
    proof
      assume "d = 0"
      then have "fl (d + 100) = Num 100"
        by (simp add: fl_binade [where k = 6] pow2_def round_even_def)
      with Num \<open>a = 0\<close> show False by simp
    qed
  qed
  then show ?thesis
    using Num by (cases "fl (d / a)") (auto simp: sub_n_def inf_n_def)
qed (simp_all add: sub_n_def)

lemma finalDamage_positive:
  assumes "0 < r"
  shows "finalDamage d r = PosInfinity \<or> (\<exists>v. finalDamage d r = Num v \<and> 1 \<le> v)"
proof -
  let ?f = "sub_n (Num 1) (div_n (Num d) (add_n (Num d) (Num 100)))"
  have "mul_n (Num r) ?f \<noteq> NaN"
    using factor_not_NaN [of d] assms by (cases ?f) (simp_all add: inf_n_def)
  then have "floor_n (mul_n (Num r) ?f) \<noteq> NaN"
    by (cases "mul_n (Num r) ?f") simp_all
  then have "finalDamage d r \<noteq> NaN"
    by (cases "floor_n (mul_n (Num r) ?f)") (simp_all add: finalDamage_def)
  then show ?thesis using finalDamage_cases [of d r] by blast
qed

lemma healthAfter_simps [simp]:
  "healthAfter h (Num v) = max 0 (h - v)"
  "healthAfter h PosInfinity = 0"
  "healthAfter h NaN = h"
  by (simp_all add: healthAfter_def healthMinus_def storeNumber_def sub_n_def)

lemma dies_simps [simp]:
  "dies h (Num v) = (h \<le> v)"
  "dies h PosInfinity = True"
  "dies h NaN = False"
  by (auto simp: dies_def healthMinus_def sub_n_def)

lemma enemies_damageEnemy_alive:
  assumes "map_of (enemies s) ident = Some e" and "state e \<noteq> DEAD"
  shows "enemies (damageEnemy ident dmg c now s) =
           AList.update ident
             (e\<lparr>stats := (stats e)\<lparr>health := healthAfter (health (stats e))
                                               (finalDamage (defense (stats e)) dmg)\<rparr>,
                lastDamageTime := now,
                state := (if dies (health (stats e)) (finalDamage (defense (stats e)) dmg)
                          then DEAD else state e)\<rparr>)
             (enemies s)"
  using assms by (simp add: damageEnemy_def Let_def healthAfter_def dies_def)

lemma map_of_damageEnemy_alive:
  assumes "map_of (enemies s) ident = Some e" and "state e \<noteq> DEAD"
  shows "map_of (enemies (damageEnemy ident dmg c now s)) ident =
           Some (e\<lparr>stats := (stats e)\<lparr>health := healthAfter (health (stats e))
                                                     (finalDamage (defense (stats e)) dmg)\<rparr>,
                   lastDamageTime := now,
                   state := (if dies (health (stats e)) (finalDamage (defense (stats e)) dmg)
                             then DEAD else state e)\<rparr>)"
  by (simp add: enemies_damageEnemy_alive [OF assms] update_conv')


text \<open>
  Line 176 in the doubles: for a health that is a double below \<open>2^53\<close> the rounded
  subtraction and the exact one of \<open>healthMinus\<close> give the same new health.
\<close>

lemma finalDamage_Num_int:
  assumes "finalDamage d r = Num v"
  shows "\<exists>n. v = of_int n \<and> 1 \<le> n"
proof -
  let ?X = "mul_n (Num r) (sub_n (Num 1) (div_n (Num d) (add_n (Num d) (Num 100))))"
  show ?thesis
  proof (cases ?X)
    case (Num a)
    then have "v = max 1 (real_of_int \<lfloor>a\<rfloor>)" using assms by (simp add: finalDamage_def)
    then have "v = of_int (max 1 \<lfloor>a\<rfloor>)" by (simp add: max_def)
    then show ?thesis by (intro exI [of _ "max 1 \<lfloor>a\<rfloor>"]) simp
  next
    case NegInfinity
    then have "v = of_int 1" using assms by (simp add: finalDamage_def)
    then show ?thesis by (intro exI [of _ 1]) simp
  qed (use assms in \<open>simp_all add: finalDamage_def\<close>)
qed

lemma newHealth_rounded:
  assumes "fl h = Num h" and "h < 2 ^ 53"
  shows "max_n (Num 0) (sub_n (Num h) (finalDamage d r))
           = max_n (Num 0) (healthMinus h (finalDamage d r))"
proof (cases "finalDamage d r")
  case (Num v)
  then obtain n where n: "v = of_int n" "1 \<le> n" using finalDamage_Num_int by blast
  show ?thesis
  proof (cases "0 < h - of_int n")
    case True
    have "fl (h - of_int n) = Num (h - of_int n)"
      using fl_sub_exact [OF assms True] n(2) by simp
    then show ?thesis by (simp add: Num n healthMinus_def sub_n_def)
  next
    case False
    then have "h - of_int n \<le> 0" by simp
    from fl_nonpos [OF this] False show ?thesis
      by (auto simp: Num n healthMinus_def sub_n_def)
  qed
qed (simp_all add: healthMinus_def)

text \<open>
  Claim C1 gives the final damage as the value of
  \<open>max 1 (floor (rawDamage * (1 - defense / (defense + 100))))\<close>. The code computes the
  formula in doubles, and the rounded factor can fall just below the exact one: with a
  defense of 400 the factor is \<open>0.19999999999999996\<close>, a raw damage of 10 deals 1 where
  the formula gives 2, and a zombie with that defense is left with 99 health, not 98.
\<close>

theorem C1_counterexample:
  "finalDamage 400 10 = Num 1 \<and>
   max 1 (real_of_int \<lfloor>10 * (1 - 400 / (400 + 100))\<rfloor>) = (2 :: real) \<and>
   map_of (enemies storeArmoured) ''enemy-zombie-1'' = Some zombieArmoured \<and>
   state zombieArmoured \<noteq> DEAD \<and> defense (stats zombieArmoured) = 400 \<and>
   health (stats zombieArmoured) = 100 \<and>
   map_of (enemies (damageEnemy ''enemy-zombie-1'' 10 False 0 storeArmoured)) ''enemy-zombie-1''
     = Some (zombieArmoured\<lparr>stats := (stats zombieArmoured)\<lparr>health := 99\<rparr>\<rparr>)"
proof -
  have a: "map_of (enemies storeArmoured) ''enemy-zombie-1'' = Some zombieArmoured"
    "state zombieArmoured \<noteq> DEAD" "defense (stats zombieArmoured) = 400"
    "health (stats zombieArmoured) = 100" "lastDamageTime zombieArmoured = 0"
    by (simp_all add: storeArmoured_def store1_def zombieArmoured_def zombie1_def)
  have "map_of (enemies (damageEnemy ''enemy-zombie-1'' 10 False 0 storeArmoured)) ''enemy-zombie-1''
     = Some (zombieArmoured\<lparr>stats := (stats zombieArmoured)\<lparr>health := 99\<rparr>\<rparr>)"
    using a(5) by (simp add: map_of_damageEnemy_alive [OF a(1,2)] a(3,4) finalDamage_400_10)
  then show ?thesis using a finalDamage_400_10 by simp
qed

text \<open>
  Claim C1, amended. For an enemy of the store that is not DEAD and has a health below
  \<open>2^53\<close>, \<^verbatim>\<open>damageEnemy\<close> leaves it with health \<open>max 0 (health - finalDamage)\<close>
  whenever the final damage is finite, and with health 0 and DEAD when it is infinite.
  The final damage is \<open>max 1 (floor (rawDamage * (1 - defense / (defense + 100))))\<close>
  with every operation a double operation. With defense 5 and raw damage 25 it is 23;
  for every defense and every positive raw damage it is at least 1; it is NaN only for
  a raw damage of 0. For a health that is a double below \<open>2^53\<close> the subtraction of
  line 176, rounded as the code rounds it, gives the new health stated here.
\<close>

theorem C1_damageEnemy_mitigation:
  "(\<forall>s ident e rawDamage isCrit now v.
      map_of (enemies s) ident = Some e \<and> state e \<noteq> DEAD \<and> health (stats e) < 2 ^ 53 \<and>
      finalDamage (defense (stats e)) rawDamage = Num v \<longrightarrow>
      (\<exists>e'. map_of (enemies (damageEnemy ident rawDamage isCrit now s)) ident = Some e' \<and>
            health (stats e') = max 0 (health (stats e) - v) \<and>
            0 \<le> health (stats e')))
   \<and> (\<forall>s ident e rawDamage isCrit now.
      map_of (enemies s) ident = Some e \<and> state e \<noteq> DEAD \<and>
      finalDamage (defense (stats e)) rawDamage = PosInfinity \<longrightarrow>
      (\<exists>e'. map_of (enemies (damageEnemy ident rawDamage isCrit now s)) ident = Some e' \<and>
            health (stats e') = 0 \<and> state e' = DEAD))
   \<and> (\<forall>d r. finalDamage d r =
         max_n (Num 1)
           (floor_n (mul_n (Num r) (sub_n (Num 1) (div_n (Num d) (add_n (Num d) (Num 100)))))))
   \<and> finalDamage 5 25 = Num 23
   \<and> (\<forall>d r. 0 < r \<longrightarrow>
         finalDamage d r = PosInfinity \<or> (\<exists>v. finalDamage d r = Num v \<and> 1 \<le> v))
   \<and> (\<forall>d r. finalDamage d r = NaN \<longrightarrow> r = 0)
   \<and> (\<forall>h d r. fl h = Num h \<and> h < 2 ^ 53 \<longrightarrow>
         max_n (Num 0) (sub_n (Num h) (finalDamage d r))
           = max_n (Num 0) (healthMinus h (finalDamage d r)))"
proof (intro conjI allI impI)
  fix s :: EnemyStore and ident :: string and e :: EnemyData
    and rawDamage :: real and isCrit :: bool and now :: real and v :: real
  assume h: "map_of (enemies s) ident = Some e \<and> state e \<noteq> DEAD \<and> health (stats e) < 2 ^ 53 \<and>
      finalDamage (defense (stats e)) rawDamage = Num v"
  then show "\<exists>e'. map_of (enemies (damageEnemy ident rawDamage isCrit now s)) ident = Some e' \<and>
            health (stats e') = max 0 (health (stats e) - v) \<and>
            0 \<le> health (stats e')"
    using map_of_damageEnemy_alive [of s ident e rawDamage isCrit now] by simp
next
  fix s :: EnemyStore and ident :: string and e :: EnemyData
    and rawDamage :: real and isCrit :: bool and now :: real
  assume h: "map_of (enemies s) ident = Some e \<and> state e \<noteq> DEAD \<and>
      finalDamage (defense (stats e)) rawDamage = PosInfinity"
  then show "\<exists>e'. map_of (enemies (damageEnemy ident rawDamage isCrit now s)) ident = Some e' \<and>
            health (stats e') = 0 \<and> state e' = DEAD"
    using map_of_damageEnemy_alive [of s ident e rawDamage isCrit now] by simp
next
  fix d r :: real
  show "finalDamage d r =
         max_n (Num 1)
           (floor_n (mul_n (Num r) (sub_n (Num 1) (div_n (Num d) (add_n (Num d) (Num 100))))))"
    by (simp add: finalDamage_def)
next
  show "finalDamage 5 25 = Num 23" by (rule finalDamage_5_25)
next
  fix d r :: real
  assume "0 < r"
  then show "finalDamage d r = PosInfinity \<or> (\<exists>v. finalDamage d r = Num v \<and> 1 \<le> v)"
    by (rule finalDamage_positive)
next
  fix d r :: real
  assume n: "finalDamage d r = NaN"
  show "r = 0"
  proof (rule ccontr)
    assume "r \<noteq> 0"
    let ?f = "sub_n (Num 1) (div_n (Num d) (add_n (Num d) (Num 100)))"
    have "mul_n (Num r) ?f \<noteq> NaN"
      using factor_not_NaN [of d] \<open>r \<noteq> 0\<close> by (cases ?f) (simp_all add: inf_n_def sgn_if)
    then have "floor_n (mul_n (Num r) ?f) \<noteq> NaN"
      by (cases "mul_n (Num r) ?f") simp_all
    then have "finalDamage d r \<noteq> NaN"
      by (cases "floor_n (mul_n (Num r) ?f)") (simp_all add: finalDamage_def)
    with n show False by simp
  qed
next
  fix h d r :: real
  assume "fl h = Num h \<and> h < 2 ^ 53"
  then show "max_n (Num 0) (sub_n (Num h) (finalDamage d r))
           = max_n (Num 0) (healthMinus h (finalDamage d r))"
    by (simp add: newHealth_rounded)
qed

theorem C1_witness:
  "map_of (enemies store1) ''enemy-zombie-1'' = Some zombie1 \<and> state zombie1 \<noteq> DEAD \<and>
   health (stats zombie1) < 2 ^ 53 \<and> finalDamage (defense (stats zombie1)) 25 = Num 23 \<and>
   (\<exists>e'. map_of (enemies (damageEnemy ''enemy-zombie-1'' 25 False 0 store1)) ''enemy-zombie-1''
           = Some e' \<and>
         health (stats e') = 77)"
proof -
  have a: "map_of (enemies store1) ''enemy-zombie-1'' = Some zombie1 \<and> state zombie1 \<noteq> DEAD \<and>
           health (stats zombie1) < 2 ^ 53 \<and> finalDamage (defense (stats zombie1)) 25 = Num 23"
    by (simp add: store1_def zombie1_def finalDamage_5_25)
  have n: "max 0 (health (stats zombie1) - 23) = (77::real)"
    by (simp add: zombie1_def)
  from C1_damageEnemy_mitigation [THEN conjunct1, rule_format, OF a, of False 0]
  show ?thesis using a unfolding n by blast
qed

section \<open>Health stays between 0 and maxHealth\<close>




lemma healthInvariant_fields [simp]:
  "healthInvariant (s\<lparr>damageEvents := d\<rparr>) = healthInvariant s"
  "healthInvariant (s\<lparr>timeouts := t\<rparr>) = healthInvariant s"
  "healthInvariant (s\<lparr>enemyIdCounter := c\<rparr>) = healthInvariant s"
  by (simp_all add: healthInvariant_def)










section \<open>The melee hit test\<close>

lemma checkEnemyHit_step_cases:
  "checkEnemyHit_step ro rd m acc (ident, e) =
     (if qualifies ro rd m e \<and> less_bound (projection ro rd e) (snd acc)
      then (Some (ident, projection ro rd e), Finite (projection ro rd e))
      else acc)"
  by (auto simp: checkEnemyHit_step_def qualifies_def projection_def perpendicular_def Let_def)

lemma hit_inv_step:
  assumes "hit_inv ro rd m xs acc"
  shows "hit_inv ro rd m (xs @ [x]) (checkEnemyHit_step ro rd m acc x)"
proof (cases x)
  case (Pair ident e)
  show ?thesis
  proof (cases "fst acc")
    case None
    then show ?thesis using assms
      by (auto simp: hit_inv_def Pair checkEnemyHit_step_cases)
  next
    case (Some h)
    then show ?thesis using assms
      by (fastforce simp: hit_inv_def Pair checkEnemyHit_step_cases)
  qed
qed

lemma hit_inv_foldl:
  "hit_inv ro rd m xs (foldl (checkEnemyHit_step ro rd m) (None, POSITIVE_INFINITY) xs)"
proof (induction xs rule: rev_induct)
  case Nil
  show ?case by (simp add: hit_inv_def)
next
  case (snoc x xs)
  then show ?case using hit_inv_step [of ro rd m xs _ x] by simp
qed

lemma checkEnemyHit_None_iff:
  "checkEnemyHit ro rd m s = None \<longleftrightarrow> (\<forall>entry \<in> set (enemies s). \<not> qualifies ro rd m (snd entry))"
  using hit_inv_foldl [of ro rd m "enemies s"]
  by (fastforce simp: checkEnemyHit_def hit_inv_def split: option.splits)

lemma checkEnemyHit_Some:
  assumes "checkEnemyHit ro rd m s = Some (ident, t)"
  shows "\<exists>e. (ident, e) \<in> set (enemies s) \<and> qualifies ro rd m e \<and> t = projection ro rd e \<and>
           (\<forall>entry \<in> set (enemies s). qualifies ro rd m (snd entry) \<longrightarrow> t \<le> projection ro rd (snd entry))"
  using hit_inv_foldl [of ro rd m "enemies s"] assms
  by (auto simp: checkEnemyHit_def hit_inv_def split: option.splits)

lemma checkEnemyHit_single:
  "checkEnemyHit ro rd m (s\<lparr>enemies := [(ident, e)]\<rparr>) =
     (if qualifies ro rd m e then Some (ident, projection ro rd e) else None)"
  by (simp add: checkEnemyHit_def checkEnemyHit_step_cases)

lemmas ray_defs = qualifies_def projection_def perpendicular_def
  dot_def subVectors_def add_v_def multiplyScalar_def distanceTo_def distanceToSquared_def

text \<open>
  Claim C3. \<^verbatim>\<open>checkEnemyHit\<close> returns nothing exactly when no enemy of the store
  qualifies (not DEAD, projection \<open>t\<close> with \<open>0 \<le> t \<le> maxDistance\<close>, distance from the ray
  at \<open>t\<close> at most 1); a hit it returns is a qualifying enemy of the store with its own
  \<open>t\<close>, and no qualifying enemy has a smaller \<open>t\<close>; with one enemy in the store the
  hit is that enemy if and only if it qualifies. The ray from the origin along
  \<open>(0, 0, -1)\<close> with \<open>maxDistance = 2\<close> hits an enemy at \<open>(0, 0, -1)\<close> and neither one
  at \<open>(0, 0, 1)\<close> nor one at \<open>(0, 0, -5)\<close>.
\<close>

theorem C3_checkEnemyHit:
  "(checkEnemyHit ro rd m s = None \<longleftrightarrow>
      (\<forall>entry \<in> set (enemies s). \<not> qualifies ro rd m (snd entry)))
   \<and> (\<forall>ident t. checkEnemyHit ro rd m s = Some (ident, t) \<longrightarrow>
        (\<exists>e. (ident, e) \<in> set (enemies s) \<and> qualifies ro rd m e \<and> t = projection ro rd e \<and>
             (\<forall>entry \<in> set (enemies s).
                qualifies ro rd m (snd entry) \<longrightarrow> t \<le> projection ro rd (snd entry))))
   \<and> checkEnemyHit ro rd m (s\<lparr>enemies := [(k, e0)]\<rparr>) =
        (if qualifies ro rd m e0 then Some (k, projection ro rd e0) else None)
   \<and> checkEnemyHit (Vector3 0 0 0) (Vector3 0 0 (- 1)) 2 (enemyAt (Vector3 0 0 (- 1)))
        = Some (''enemy-zombie-1'', 1)
   \<and> checkEnemyHit (Vector3 0 0 0) (Vector3 0 0 (- 1)) 2 (enemyAt (Vector3 0 0 1)) = None
   \<and> checkEnemyHit (Vector3 0 0 0) (Vector3 0 0 (- 1)) 2 (enemyAt (Vector3 0 0 (- 5))) = None"
proof (intro conjI allI impI)
  show "checkEnemyHit ro rd m s = None \<longleftrightarrow>
      (\<forall>entry \<in> set (enemies s). \<not> qualifies ro rd m (snd entry))"
    by (rule checkEnemyHit_None_iff)
next
  fix ident :: string and t :: real
  assume "checkEnemyHit ro rd m s = Some (ident, t)"
  then show "\<exists>e. (ident, e) \<in> set (enemies s) \<and> qualifies ro rd m e \<and> t = projection ro rd e \<and>
             (\<forall>entry \<in> set (enemies s).
                qualifies ro rd m (snd entry) \<longrightarrow> t \<le> projection ro rd (snd entry))"
    by (rule checkEnemyHit_Some)
next
  show "checkEnemyHit ro rd m (s\<lparr>enemies := [(k, e0)]\<rparr>) =
        (if qualifies ro rd m e0 then Some (k, projection ro rd e0) else None)"
    by (rule checkEnemyHit_single)
next
  show "checkEnemyHit (Vector3 0 0 0) (Vector3 0 0 (- 1)) 2 (enemyAt (Vector3 0 0 (- 1)))
        = Some (''enemy-zombie-1'', 1)"
    by (simp add: enemyAt_def checkEnemyHit_single zombie1_def ray_defs)
next
  show "checkEnemyHit (Vector3 0 0 0) (Vector3 0 0 (- 1)) 2 (enemyAt (Vector3 0 0 1)) = None"
    by (simp add: enemyAt_def checkEnemyHit_single zombie1_def ray_defs)
next
  show "checkEnemyHit (Vector3 0 0 0) (Vector3 0 0 (- 1)) 2 (enemyAt (Vector3 0 0 (- 5))) = None"
    by (simp add: enemyAt_def checkEnemyHit_single zombie1_def ray_defs)
qed

theorem C3_witness:
  "checkEnemyHit (Vector3 0 0 0) (Vector3 0 0 (- 1)) 2 store2 = Some (''enemy-zombie-2'', 1) \<and>
   (\<exists>e. (''enemy-zombie-2'', e) \<in> set (enemies store2) \<and>
        qualifies (Vector3 0 0 0) (Vector3 0 0 (- 1)) 2 e \<and>
        perpendicular (Vector3 0 0 0) (Vector3 0 0 (- 1)) e = 1 / 2) \<and>
   qualifies (Vector3 0 0 0) (Vector3 0 0 (- 1)) 2 (zombie1\<lparr>position := Vector3 0 0 (- (3 / 2))\<rparr>) \<and>
   perpendicular (Vector3 0 0 0) (Vector3 0 0 (- 1)) (zombie1\<lparr>position := Vector3 0 0 (- (3 / 2))\<rparr>) = 0"
proof -
  have s4: "sqrt (1 / 4) = 1 / 2"
    using real_sqrt_abs2 [of "1 / 2"] by (simp add: power2_eq_square)
  have ev: "checkEnemyHit (Vector3 0 0 0) (Vector3 0 0 (- 1)) 2 store2 = Some (''enemy-zombie-2'', 1)"
    by (simp add: checkEnemyHit_def store2_def store1_def zombie1_def checkEnemyHit_step_cases ray_defs)
  from C3_checkEnemyHit [of "Vector3 0 0 0" "Vector3 0 0 (- 1)" 2 store2,
      THEN conjunct2, THEN conjunct1, rule_format, OF ev]
  obtain e where e: "(''enemy-zombie-2'', e) \<in> set (enemies store2)"
    "qualifies (Vector3 0 0 0) (Vector3 0 0 (- 1)) 2 e" by blast
  from e(1) have "e = zombie1\<lparr>id_enemy := ''enemy-zombie-2'', position := Vector3 (1 / 2) 0 (- 1)\<rparr>"
    by (simp add: store2_def)
  then have "perpendicular (Vector3 0 0 0) (Vector3 0 0 (- 1)) e = 1 / 2"
    by (simp add: ray_defs s4)
  moreover have "qualifies (Vector3 0 0 0) (Vector3 0 0 (- 1)) 2 (zombie1\<lparr>position := Vector3 0 0 (- (3 / 2))\<rparr>)"
    "perpendicular (Vector3 0 0 0) (Vector3 0 0 (- 1)) (zombie1\<lparr>position := Vector3 0 0 (- (3 / 2))\<rparr>) = 0"
    by (simp_all add: ray_defs zombie1_def)
  ultimately show ?thesis using ev e by blast
qed

section \<open>The ALERT state\<close>

lemma distanceToSquared_nonneg: "0 \<le> distanceToSquared a b"
  by (simp add: distanceToSquared_def Let_def)

lemma distanceTo_less_iff:
  assumes "0 \<le> c"
  shows "distanceTo a b < c \<longleftrightarrow> distanceToSquared a b < c * c"
proof -
  have "sqrt (c * c) = c" using assms by simp
  then have "distanceTo a b < c \<longleftrightarrow> sqrt (distanceToSquared a b) < sqrt (c * c)"
    by (simp add: distanceTo_def)
  then show ?thesis by (simp only: real_sqrt_less_iff)
qed

lemma state_updateTimers [simp]: "state (updateTimers delta e) = state e"
  by (simp add: updateTimers_def Let_def)

lemma alert_alertTime: "alertTime (alert playerPosition e) = 1"
  by (simp add: alert_def transitionToState_def Let_def split: option.splits)

lemma alert_state:
  "state (alert playerPosition e) =
     (case playerPosition of
        None \<Rightarrow> state e
      | Some pp \<Rightarrow> if distanceTo (position e) pp < detectionRange (stats e) then CHASE else state e)"
  by (simp add: alert_def transitionToState_def Let_def split: option.splits)

text \<open>
  Claim C4. A step of an enemy in ALERT returns it in ALERT or in CHASE, never in PATROL,
  with \<open>alertTime = 1\<close>, for every \<open>delta\<close>; it is CHASE exactly when the player is
  within the detection range. Whatever record the \<^verbatim>\<open>alert\<close> handler is given, it
  leaves \<open>alertTime = 1\<close>, so its test \<^verbatim>\<open>alertTime <= 0\<close> never holds, and it either
  keeps the state or moves to CHASE.
\<close>

theorem C4_alert_never_times_out:
  "(state e = ALERT \<longrightarrow>
      (\<exists>e'. update delta e pl = Inr (e', pl) \<and> alertTime e' = 1 \<and>
            (state e' = ALERT \<or> state e' = CHASE) \<and> state e' \<noteq> PATROL \<and>
            (state e' = CHASE \<longleftrightarrow>
               distanceTo (position e) (position_player pl) < detectionRange (stats e))))
   \<and> alertTime (alert playerPosition e0) = 1
   \<and> (state (alert playerPosition e0) = state e0 \<or> state (alert playerPosition e0) = CHASE)"
proof (intro conjI impI)
  assume a: "state e = ALERT"
  let ?e = "alert (Some (position_player pl)) (updateTimers delta e)"
  have u: "update delta e pl = Inr (?e, pl)"
    using a by (simp add: update_def dispatch_def)
  have p: "position (updateTimers delta e) = position e" "stats (updateTimers delta e) = stats e"
    by (simp_all add: updateTimers_def Let_def)
  have s: "state ?e = (if distanceTo (position e) (position_player pl) < detectionRange (stats e)
                      then CHASE else ALERT)"
    using a by (simp add: alert_state p)
  show "\<exists>e'. update delta e pl = Inr (e', pl) \<and> alertTime e' = 1 \<and>
            (state e' = ALERT \<or> state e' = CHASE) \<and> state e' \<noteq> PATROL \<and>
            (state e' = CHASE \<longleftrightarrow>
               distanceTo (position e) (position_player pl) < detectionRange (stats e))"
    using u s by (simp add: alert_alertTime)
next
  show "alertTime (alert playerPosition e0) = 1" by (rule alert_alertTime)
next
  show "state (alert playerPosition e0) = state e0 \<or> state (alert playerPosition e0) = CHASE"
    by (simp add: alert_state split: option.splits)
qed

theorem C4_witness:
  "state zombieAlert = ALERT \<and>
   (\<exists>e'. update 5 zombieAlert playerFar = Inr (e', playerFar) \<and> alertTime e' = 1 \<and> state e' = ALERT) \<and>
   (\<exists>e'. update 5 zombieAlert player0 = Inr (e', player0) \<and> alertTime e' = 1 \<and> state e' = CHASE)"
proof -
  have a: "state zombieAlert = ALERT" by (simp add: zombieAlert_def)
  have far: "\<not> distanceTo (position zombieAlert) (position_player playerFar)
               < detectionRange (stats zombieAlert)"
    by (simp add: distanceTo_less_iff zombieAlert_def zombie1_def playerFar_def distanceToSquared_def)
  have near: "distanceTo (position zombieAlert) (position_player player0)
               < detectionRange (stats zombieAlert)"
    by (simp add: distanceTo_less_iff zombieAlert_def zombie1_def player0_def distanceToSquared_def)
  from C4_alert_never_times_out [of zombieAlert 5 playerFar, THEN conjunct1, rule_format, OF a]
    C4_alert_never_times_out [of zombieAlert 5 player0, THEN conjunct1, rule_format, OF a]
    far near a
  show ?thesis by blast
qed

section \<open>The two timers of the AI step\<close>

lemma attackCooldown_transitionToState [simp]:
  "attackCooldown (transitionToState st e) = attackCooldown e"
  by (cases st) (simp_all add: transitionToState_def Let_def)

lemma attackCooldown_moveTowards [simp]:
  "attackCooldown (moveTowards targ delta spd e) = attackCooldown e"
  by (simp add: moveTowards_def Let_def)

lemma attackCooldown_chase: "attackCooldown (chase playerPosition delta e) = attackCooldown e"
  by (simp add: chase_def Let_def split: option.splits)

lemma attackCooldown_updateTimers:
  "attackCooldown (updateTimers delta e) =
     (if attackCooldown e > 0 then attackCooldown e - delta else attackCooldown e)"
  by (simp add: updateTimers_def Let_def)

lemma alertTime_updateTimers:
  "alertTime (updateTimers delta e) =
     (if alertTime e > 0 then alertTime e - delta else alertTime e)"
  by (simp add: updateTimers_def Let_def)

text \<open>
  Claim C5 says that the step clamps both timers at 0. The code subtracts \<open>delta\<close>
  from a timer whenever the timer is positive and does not clamp: a chasing zombie with
  both timers at 0.01 has both at \<open>-1/150\<close> after a frame of 1/60 second, and the
  record \<^verbatim>\<open>update\<close> returns still has that cooldown.
\<close>

theorem C5_counterexample:
  "state zombieChasing \<noteq> DEAD \<and> (0::real) \<le> 1 / 60 \<and>
   attackCooldown (updateTimers (1 / 60) zombieChasing) = - (1 / 150) \<and>
   alertTime (updateTimers (1 / 60) zombieChasing) = - (1 / 150) \<and>
   update (1 / 60) zombieChasing player0 =
     Inr (chase (Some (position_player player0)) (1 / 60) (updateTimers (1 / 60) zombieChasing),
          player0) \<and>
   attackCooldown (chase (Some (position_player player0)) (1 / 60)
                     (updateTimers (1 / 60) zombieChasing)) = - (1 / 150)"
proof -
  have "update (1 / 60) zombieChasing player0 =
          Inr (chase (Some (position_player player0)) (1 / 60) (updateTimers (1 / 60) zombieChasing),
               player0)"
    by (simp add: update_def dispatch_def zombieChasing_def)
  moreover have "attackCooldown (updateTimers (1 / 60) zombieChasing) = - (1 / 150)"
    "alertTime (updateTimers (1 / 60) zombieChasing) = - (1 / 150)"
    by (simp_all add: attackCooldown_updateTimers alertTime_updateTimers zombieChasing_def)
  moreover have "state zombieChasing \<noteq> DEAD" by (simp add: zombieChasing_def)
  ultimately show ?thesis by (simp add: attackCooldown_chase)
qed

text \<open>
  Claim C5, amended. For an enemy that is not DEAD and \<open>delta \<ge> 0\<close>, the step hands
  the handlers the record in which each timer that was positive has lost \<open>delta\<close> and
  each other timer is unchanged. A timer that was at least 0 is then at least
  \<open>-delta\<close>; it is at least 0 when \<open>delta\<close> does not exceed it, and negative when
  \<open>delta\<close> exceeds a positive timer.
\<close>

theorem C5_timers_unclamped:
  "state e \<noteq> DEAD \<and> 0 \<le> delta \<longrightarrow>
     update delta e pl = dispatch (Some (position_player pl)) delta (updateTimers delta e) pl \<and>
     attackCooldown (updateTimers delta e) =
       (if attackCooldown e > 0 then attackCooldown e - delta else attackCooldown e) \<and>
     alertTime (updateTimers delta e) =
       (if alertTime e > 0 then alertTime e - delta else alertTime e) \<and>
     (0 \<le> attackCooldown e \<longrightarrow> - delta \<le> attackCooldown (updateTimers delta e)) \<and>
     (0 \<le> alertTime e \<longrightarrow> - delta \<le> alertTime (updateTimers delta e)) \<and>
     (0 \<le> attackCooldown e \<and> delta \<le> attackCooldown e \<longrightarrow> 0 \<le> attackCooldown (updateTimers delta e)) \<and>
     (0 \<le> alertTime e \<and> delta \<le> alertTime e \<longrightarrow> 0 \<le> alertTime (updateTimers delta e)) \<and>
     (0 < attackCooldown e \<and> attackCooldown e < delta \<longrightarrow> attackCooldown (updateTimers delta e) < 0) \<and>
     (0 < alertTime e \<and> alertTime e < delta \<longrightarrow> alertTime (updateTimers delta e) < 0)"
  by (simp add: update_def attackCooldown_updateTimers alertTime_updateTimers)

theorem C5_witness:
  "state zombieChasing \<noteq> DEAD \<and> (0::real) \<le> 1 / 200 \<and>
   attackCooldown (updateTimers (1 / 200) zombieChasing) = 1 / 200 \<and>
   alertTime (updateTimers (1 / 200) zombieChasing) = 1 / 200 \<and>
   update (1 / 200) zombieChasing player0 =
     dispatch (Some (position_player player0)) (1 / 200) (updateTimers (1 / 200) zombieChasing) player0"
proof -
  have a: "state zombieChasing \<noteq> DEAD \<and> (0::real) \<le> 1 / 200" by (simp add: zombieChasing_def)
  have v: "attackCooldown zombieChasing = 1 / 100" "alertTime zombieChasing = 1 / 100"
    by (simp_all add: zombieChasing_def)
  from C5_timers_unclamped [of zombieChasing "1 / 200" player0, rule_format, OF a] a
  show ?thesis by (simp add: v)
qed

section \<open>Dead enemies\<close>

lemma damageEnemy_dead:
  assumes "map_of (enemies s) ident = Some e" and "state e = DEAD"
  shows "damageEnemy ident dmg c now s = s"
  using assms by (simp add: damageEnemy_def)

lemma dies_healthAfter:
  assumes "dies h (finalDamage d r)"
  shows "healthAfter h (finalDamage d r) = 0"
  using finalDamage_cases [of d r] assms by auto

lemma timeouts_damageEnemy_alive:
  assumes "map_of (enemies s) ident = Some e" and "state e \<noteq> DEAD"
  shows "timeouts (damageEnemy ident dmg c now s) =
           (if dies (health (stats e)) (finalDamage (defense (stats e)) dmg)
            then timeouts s @ [(ident, 30000)] else timeouts s)"
  using assms by (simp add: damageEnemy_def Let_def dies_def)

lemma damageEnemy_kill:
  assumes "map_of (enemies s) ident = Some e" and "state e \<noteq> DEAD"
    and "map_of (enemies (damageEnemy ident dmg c now s)) ident = Some e1" and "state e1 = DEAD"
  shows "health (stats e1) = 0 \<and>
         timeouts (damageEnemy ident dmg c now s) = timeouts s @ [(ident, 30000)]"
proof -
  let ?fd = "finalDamage (defense (stats e)) dmg"
  from map_of_damageEnemy_alive [OF assms(1,2), of dmg c now] assms(3)
  have e1: "e1 = e\<lparr>stats := (stats e)\<lparr>health := healthAfter (health (stats e)) ?fd\<rparr>,
                   lastDamageTime := now,
                   state := (if dies (health (stats e)) ?fd then DEAD else state e)\<rparr>"
    by simp
  with assms(2,4) have d: "dies (health (stats e)) ?fd" by (simp split: if_splits)
  have "health (stats e1) = 0" using e1 dies_healthAfter [OF d] by simp
  moreover have "timeouts (damageEnemy ident dmg c now s) = timeouts s @ [(ident, 30000)]"
    using d by (simp add: timeouts_damageEnemy_alive [OF assms(1,2)])
  ultimately show ?thesis by simp
qed

lemma map_of_updateEnemy:
  assumes "map_of (enemies s) ident = Some e"
  shows "map_of (enemies (updateEnemy ident u s)) ident = Some (applyUpdates e u)"
  using assms by (simp add: updateEnemy_def update_conv')

lemma applyUpdates_state: "applyUpdates e (noUpdates\<lparr>state_upd := Some st\<rparr>) = e\<lparr>state := st\<rparr>"
  by (simp add: applyUpdates_def noUpdates_def overwrite_def)

lemma map_of_updateEnemyState:
  assumes "map_of (enemies s) ident = Some e"
  shows "map_of (enemies (updateEnemyState ident st s)) ident = Some (e\<lparr>state := st\<rparr>)"
  using map_of_updateEnemy [OF assms] by (simp add: updateEnemyState_def applyUpdates_state)

lemma respawnEnemy_present:
  assumes "map_of (enemies s) ident = Some e" and "patrolPoints e = q # qs"
  shows "respawnEnemy ident s =
           Inr (s\<lparr>enemies :=
                    AList.update ident
                      (e\<lparr>position := q, stats := (stats e)\<lparr>health := maxHealth (stats e)\<rparr>,
                         state := PATROL, target := None, currentPatrolIndex := 0,
                         attackCooldown := 0, alertTime := 0\<rparr>)
                      (enemies s)\<rparr>)"
  using assms by (simp add: respawnEnemy_def)

text \<open>
  Claim C6 says that only \<^verbatim>\<open>respawnEnemy\<close> moves an enemy out of DEAD. The store's
  setters do not test the state: \<^verbatim>\<open>updateEnemyState\<close> with CHASE on the store whose
  zombie is DEAD leaves that zombie in CHASE.
\<close>

theorem C6_counterexample:
  "map_of (enemies storeDead) ''enemy-zombie-1'' = Some zombieDead \<and>
   state zombieDead = DEAD \<and>
   map_of (enemies (updateEnemyState ''enemy-zombie-1'' CHASE storeDead)) ''enemy-zombie-1''
     = Some (zombieDead\<lparr>state := CHASE\<rparr>) \<and>
   state (zombieDead\<lparr>state := CHASE\<rparr>) = CHASE"
proof -
  have a: "map_of (enemies storeDead) ''enemy-zombie-1'' = Some zombieDead"
    by (simp add: storeDead_def)
  have b: "state zombieDead = DEAD" by (simp add: zombieDead_def)
  show ?thesis using a b map_of_updateEnemyState [OF a, of CHASE] by simp
qed

text \<open>
  Claim C6, amended. For an enemy in DEAD the AI step returns the same record and
  player, and \<^verbatim>\<open>damageEnemy\<close> on it returns the same store (enemies, damage events and
  pending respawns). An enemy that \<^verbatim>\<open>damageEnemy\<close> turns DEAD has health 0 and one
  respawn scheduled, and damaging it again changes nothing. \<^verbatim>\<open>respawnEnemy\<close> puts a
  DEAD enemy with a patrol point back into PATROL: of the AI step, \<^verbatim>\<open>damageEnemy\<close> and
  \<^verbatim>\<open>respawnEnemy\<close> it alone moves an enemy out of DEAD. The setters \<^verbatim>\<open>updateEnemy\<close> and
  \<^verbatim>\<open>updateEnemyState\<close> write the fields they are given into a DEAD enemy as into any
  other, the state among them.
\<close>

theorem C6_dead_is_inert:
  "(state e = DEAD \<longrightarrow> update delta e pl = Inr (e, pl))
   \<and> (map_of (enemies s) ident = Some e \<and> state e = DEAD \<longrightarrow>
        damageEnemy ident dmg isCrit now s = s)
   \<and> (map_of (enemies s) ident = Some e \<and> state e \<noteq> DEAD \<and>
        map_of (enemies (damageEnemy ident dmg isCrit now s)) ident = Some e1 \<and> state e1 = DEAD \<longrightarrow>
        health (stats e1) = 0 \<and>
        timeouts (damageEnemy ident dmg isCrit now s) = timeouts s @ [(ident, 30000)] \<and>
        damageEnemy ident dmg2 isCrit2 now2 (damageEnemy ident dmg isCrit now s)
          = damageEnemy ident dmg isCrit now s)
   \<and> (map_of (enemies s) ident = Some e \<and> state e = DEAD \<and> patrolPoints e \<noteq> [] \<longrightarrow>
        (\<exists>s' e'. respawnEnemy ident s = Inr s' \<and> map_of (enemies s') ident = Some e' \<and>
                 state e' = PATROL))
   \<and> (map_of (enemies s) ident = Some e \<longrightarrow>
        map_of (enemies (updateEnemy ident u s)) ident = Some (applyUpdates e u) \<and>
        map_of (enemies (updateEnemyState ident st s)) ident = Some (e\<lparr>state := st\<rparr>))"
proof (intro conjI impI)
  assume "state e = DEAD"
  then show "update delta e pl = Inr (e, pl)" by (simp add: update_def)
next
  assume "map_of (enemies s) ident = Some e \<and> state e = DEAD"
  then show "damageEnemy ident dmg isCrit now s = s" by (simp add: damageEnemy_dead)
next
  assume h: "map_of (enemies s) ident = Some e \<and> state e \<noteq> DEAD \<and>
        map_of (enemies (damageEnemy ident dmg isCrit now s)) ident = Some e1 \<and> state e1 = DEAD"
  then have k: "health (stats e1) = 0 \<and>
         timeouts (damageEnemy ident dmg isCrit now s) = timeouts s @ [(ident, 30000)]"
    using damageEnemy_kill [of s ident e dmg isCrit now e1] by blast
  from k show "health (stats e1) = 0" by blast
  from k show "timeouts (damageEnemy ident dmg isCrit now s) = timeouts s @ [(ident, 30000)]" by blast
  from h show "damageEnemy ident dmg2 isCrit2 now2 (damageEnemy ident dmg isCrit now s)
          = damageEnemy ident dmg isCrit now s"
    using damageEnemy_dead [of "damageEnemy ident dmg isCrit now s" ident e1] by blast
next
  assume h: "map_of (enemies s) ident = Some e \<and> state e = DEAD \<and> patrolPoints e \<noteq> []"
  then obtain q qs where "patrolPoints e = q # qs" by (cases "patrolPoints e") auto
  with h show "\<exists>s' e'. respawnEnemy ident s = Inr s' \<and> map_of (enemies s') ident = Some e' \<and>
                 state e' = PATROL"
    using respawnEnemy_present [of s ident e q qs] by (simp add: update_conv')
next
  assume "map_of (enemies s) ident = Some e"
  then show "map_of (enemies (updateEnemy ident u s)) ident = Some (applyUpdates e u)"
    by (rule map_of_updateEnemy)
next
  assume "map_of (enemies s) ident = Some e"
  then show "map_of (enemies (updateEnemyState ident st s)) ident = Some (e\<lparr>state := st\<rparr>)"
    by (rule map_of_updateEnemyState)
qed

theorem C6_witness:
  "state zombieDead = DEAD \<and>
   map_of (enemies storeDead) ''enemy-zombie-1'' = Some zombieDead \<and>
   update (1 / 60) zombieDead player0 = Inr (zombieDead, player0) \<and>
   damageEnemy ''enemy-zombie-1'' 25 True 8 storeDead = storeDead \<and>
   health (stats zombieDead) = 0 \<and>
   (\<exists>e'. map_of (enemies (damageEnemy ''enemy-zombie-1'' 1000 False 7 store1)) ''enemy-zombie-1'' = Some e' \<and>
         state e' = DEAD \<and> health (stats e') = 0) \<and>
   map_of (enemies (updateEnemyState ''enemy-zombie-1'' PATROL storeDead)) ''enemy-zombie-1''
     = Some (zombieDead\<lparr>state := PATROL\<rparr>)"
proof -
  have a: "state zombieDead = DEAD" by (simp add: zombieDead_def)
  have b: "map_of (enemies storeDead) ''enemy-zombie-1'' = Some zombieDead"
    by (simp add: storeDead_def)
  have c: "map_of (enemies store1) ''enemy-zombie-1'' = Some zombie1 \<and> state zombie1 \<noteq> DEAD"
    by (simp add: store1_def zombie1_def)
  have z: "defense (stats zombie1) = 5" "health (stats zombie1) = 100"
    by (simp_all add: zombie1_def)
  have d: "damageEnemy ''enemy-zombie-1'' 1000 False 7 store1 = storeDead"
  proof -
    have "map_of (enemies store1) ''enemy-zombie-1'' = Some zombie1" using c by simp
    then show ?thesis
      using c by (simp add: damageEnemy_def Let_def z finalDamage_5_1000 healthMinus_def
          storeNumber_def)
        (simp add: store1_def storeDead_def zombieDead_def zombie1_def)
  qed
  have e: "map_of (enemies (damageEnemy ''enemy-zombie-1'' 1000 False 7 store1)) ''enemy-zombie-1''
             = Some zombieDead \<and> state zombieDead = DEAD"
    using a b by (simp add: d)
  note t = C6_dead_is_inert [of zombieDead "1 / 60" player0 storeDead "''enemy-zombie-1''" 25 True 8]
  note k = C6_dead_is_inert [of zombie1 _ _ store1 "''enemy-zombie-1''" 1000 False 7 zombieDead]
  note u = C6_dead_is_inert [of zombieDead _ _ storeDead "''enemy-zombie-1''" _ _ _ _ _ _ _ _ PATROL]
  from t [THEN conjunct1, rule_format, OF a]
    t [THEN conjunct2, THEN conjunct1, rule_format, OF conjI [OF b a]]
    k [THEN conjunct2, THEN conjunct2, THEN conjunct1, rule_format, OF conjI [OF conjunct1 [OF c] conjI [OF conjunct2 [OF c] e]]]
    u [THEN conjunct2, THEN conjunct2, THEN conjunct2, THEN conjunct2, rule_format, OF b]
    a b e
  show ?thesis by simp
qed

section \<open>Respawning\<close>

lemma map_fst_update_present:
  assumes "map_of al k = Some v"
  shows "map fst (AList.update k v' al) = map fst al"
proof -
  from assms have "k \<in> fst ` set al" by (metis domI dom_map_of_conv_image_fst)
  then show ?thesis by (simp add: update_keys)
qed

text \<open>
  Claim C7. For an enemy of the store with a first patrol point, \<^verbatim>\<open>respawnEnemy\<close>
  sets position to that point, health to \<open>maxHealth\<close>, state to PATROL, target to null,
  \<open>currentPatrolIndex\<close> and both timers to 0, and leaves every other field of the
  enemy, every other enemy, the order of the map, the damage events and the pending
  respawns as they were. For an id that is not in the store it returns the store unchanged.
\<close>

theorem C7_respawnEnemy:
  "(map_of (enemies s) ident = Some e \<and> patrolPoints e \<noteq> [] \<longrightarrow>
      (\<exists>s' e'. respawnEnemy ident s = Inr s' \<and> map_of (enemies s') ident = Some e' \<and>
         position e' = hd (patrolPoints e) \<and> health (stats e') = maxHealth (stats e) \<and>
         state e' = PATROL \<and> target e' = None \<and> currentPatrolIndex e' = 0 \<and>
         attackCooldown e' = 0 \<and> alertTime e' = 0 \<and>
         id_enemy e' = id_enemy e \<and> type_enemy e' = type_enemy e \<and>
         patrolPoints e' = patrolPoints e \<and>
         maxHealth (stats e') = maxHealth (stats e) \<and> speed (stats e') = speed (stats e) \<and>
         damage (stats e') = damage (stats e) \<and> attackRange (stats e') = attackRange (stats e) \<and>
         detectionRange (stats e') = detectionRange (stats e) \<and>
         attackSpeed (stats e') = attackSpeed (stats e) \<and> defense (stats e') = defense (stats e) \<and>
         rotation e' = rotation e \<and> lastDamageTime e' = lastDamageTime e \<and>
         respawnTime e' = respawnTime e \<and>
         e' = e\<lparr>position := hd (patrolPoints e),
                 stats := (stats e)\<lparr>health := maxHealth (stats e)\<rparr>,
                 state := PATROL, target := None, currentPatrolIndex := 0,
                 attackCooldown := 0, alertTime := 0\<rparr> \<and>
         (\<forall>k. k \<noteq> ident \<longrightarrow> map_of (enemies s') k = map_of (enemies s) k) \<and>
         map fst (enemies s') = map fst (enemies s) \<and>
         damageEvents s' = damageEvents s \<and> timeouts s' = timeouts s \<and>
         enemyIdCounter s' = enemyIdCounter s))
   \<and> (map_of (enemies s) ident = None \<longrightarrow> respawnEnemy ident s = Inr s)"
proof (intro conjI impI)
  assume h: "map_of (enemies s) ident = Some e \<and> patrolPoints e \<noteq> []"
  then obtain q qs where pp: "patrolPoints e = q # qs" by (cases "patrolPoints e") auto
  let ?e = "e\<lparr>position := q, stats := (stats e)\<lparr>health := maxHealth (stats e)\<rparr>,
               state := PATROL, target := None, currentPatrolIndex := 0,
               attackCooldown := 0, alertTime := 0\<rparr>"
  let ?s = "s\<lparr>enemies := AList.update ident ?e (enemies s)\<rparr>"
  have r: "respawnEnemy ident s = Inr ?s"
    using h pp by (simp add: respawnEnemy_present)
  have m: "map_of (enemies ?s) ident = Some ?e" by (simp add: update_conv')
  have o: "\<forall>k. k \<noteq> ident \<longrightarrow> map_of (enemies ?s) k = map_of (enemies s) k"
    by (simp add: update_conv')
  have f: "map fst (enemies ?s) = map fst (enemies s)"
    using h by (simp add: map_fst_update_present)
  show "\<exists>s' e'. respawnEnemy ident s = Inr s' \<and> map_of (enemies s') ident = Some e' \<and>
         position e' = hd (patrolPoints e) \<and> health (stats e') = maxHealth (stats e) \<and>
         state e' = PATROL \<and> target e' = None \<and> currentPatrolIndex e' = 0 \<and>
         attackCooldown e' = 0 \<and> alertTime e' = 0 \<and>
         id_enemy e' = id_enemy e \<and> type_enemy e' = type_enemy e \<and>
         patrolPoints e' = patrolPoints e \<and>
         maxHealth (stats e') = maxHealth (stats e) \<and> speed (stats e') = speed (stats e) \<and>
         damage (stats e') = damage (stats e) \<and> attackRange (stats e') = attackRange (stats e) \<and>
         detectionRange (stats e') = detectionRange (stats e) \<and>
         attackSpeed (stats e') = attackSpeed (stats e) \<and> defense (stats e') = defense (stats e) \<and>
         rotation e' = rotation e \<and> lastDamageTime e' = lastDamageTime e \<and>
         respawnTime e' = respawnTime e \<and>
         e' = e\<lparr>position := hd (patrolPoints e),
                 stats := (stats e)\<lparr>health := maxHealth (stats e)\<rparr>,
                 state := PATROL, target := None, currentPatrolIndex := 0,
                 attackCooldown := 0, alertTime := 0\<rparr> \<and>
         (\<forall>k. k \<noteq> ident \<longrightarrow> map_of (enemies s') k = map_of (enemies s) k) \<and>
         map fst (enemies s') = map fst (enemies s) \<and>
         damageEvents s' = damageEvents s \<and> timeouts s' = timeouts s \<and>
         enemyIdCounter s' = enemyIdCounter s"
    apply (rule exI [of _ ?s])
    apply (rule exI [of _ ?e])
    using r m o f pp apply simp
    done
next
  assume "map_of (enemies s) ident = None"
  then show "respawnEnemy ident s = Inr s" by (simp add: respawnEnemy_def)
qed

theorem C7_witness:
  "map_of (enemies storeDead) ''enemy-zombie-1'' = Some zombieDead \<and> patrolPoints zombieDead \<noteq> [] \<and>
   (\<exists>s'. respawnEnemy ''enemy-zombie-1'' storeDead = Inr s' \<and>
         map_of (enemies s') ''enemy-zombie-1''
           = Some (zombie1\<lparr>position := Vector3 20 1 0, lastDamageTime := 7\<rparr>)) \<and>
   map_of (enemies storeDead) ''enemy-bandit-4'' = None \<and>
   respawnEnemy ''enemy-bandit-4'' storeDead = Inr storeDead"
proof -
  have a: "map_of (enemies storeDead) ''enemy-zombie-1'' = Some zombieDead \<and> patrolPoints zombieDead \<noteq> []"
    by (simp add: storeDead_def zombieDead_def zombie1_def)
  have b: "map_of (enemies storeDead) ''enemy-bandit-4'' = None"
    by (simp add: storeDead_def)
  have c: "zombieDead\<lparr>position := hd (patrolPoints zombieDead),
                 stats := (stats zombieDead)\<lparr>health := maxHealth (stats zombieDead)\<rparr>,
                 state := PATROL, target := None, currentPatrolIndex := 0,
                 attackCooldown := 0, alertTime := 0\<rparr>
           = zombie1\<lparr>position := Vector3 20 1 0, lastDamageTime := 7\<rparr>"
    by (simp add: zombieDead_def zombie1_def)
  from C7_respawnEnemy [of storeDead "''enemy-zombie-1''" zombieDead, THEN conjunct1, rule_format, OF a]
  obtain s' e' where "respawnEnemy ''enemy-zombie-1'' storeDead = Inr s'"
    "map_of (enemies s') ''enemy-zombie-1'' = Some e'"
    "e' = zombieDead\<lparr>position := hd (patrolPoints zombieDead),
                 stats := (stats zombieDead)\<lparr>health := maxHealth (stats zombieDead)\<rparr>,
                 state := PATROL, target := None, currentPatrolIndex := 0,
                 attackCooldown := 0, alertTime := 0\<rparr>"
    by blast
  then have "\<exists>s'. respawnEnemy ''enemy-zombie-1'' storeDead = Inr s' \<and>
         map_of (enemies s') ''enemy-zombie-1''
           = Some (zombie1\<lparr>position := Vector3 20 1 0, lastDamageTime := 7\<rparr>)"
    using c by auto
  with a b C7_respawnEnemy [of storeDead "''enemy-bandit-4''", THEN conjunct2, rule_format, OF b]
  show ?thesis by blast
qed

section \<open>Fleeing from the chase\<close>

lemma chase_low_health:
  assumes "health (stats e) < maxHealth (stats e) * (2 / 10)"
  shows "chase (Some pp) delta e = transitionToState FLEE e"
  using assms by (simp add: chase_def Let_def)

text \<open>
  Claim C9. An enemy in CHASE with \<open>health < 0.2 * maxHealth\<close> leaves the step in FLEE,
  at its old position and with the player unharmed, wherever the player is: the test
  comes before the attack-range test of \<^verbatim>\<open>chase\<close>.
\<close>

theorem C9_chase_flees_first:
  "state e = CHASE \<and> health (stats e) < (2 / 10) * maxHealth (stats e) \<longrightarrow>
     (\<exists>e'. update delta e pl = Inr (e', pl) \<and> state e' = FLEE \<and> state e' \<noteq> ATTACK \<and>
           e' = (updateTimers delta e)\<lparr>state := FLEE\<rparr> \<and> position e' = position e) \<and>
     state (chase (Some pp) delta e) = FLEE"
proof (intro impI)
  assume h: "state e = CHASE \<and> health (stats e) < (2 / 10) * maxHealth (stats e)"
  have st: "stats (updateTimers delta e) = stats e" "position (updateTimers delta e) = position e"
    by (simp_all add: updateTimers_def Let_def)
  have low: "health (stats (updateTimers delta e)) < maxHealth (stats (updateTimers delta e)) * (2 / 10)"
    using h by (simp add: st mult.commute)
  have "update delta e pl = Inr (chase (Some (position_player pl)) delta (updateTimers delta e), pl)"
    using h by (simp add: update_def dispatch_def)
  moreover have "chase (Some (position_player pl)) delta (updateTimers delta e)
                   = (updateTimers delta e)\<lparr>state := FLEE\<rparr>"
    using h by (simp add: chase_low_health [OF low] transitionToState_def)
  moreover have "state (chase (Some pp) delta e) = FLEE"
    using h by (simp add: chase_def Let_def transitionToState_def mult.commute)
  ultimately show "(\<exists>e'. update delta e pl = Inr (e', pl) \<and> state e' = FLEE \<and> state e' \<noteq> ATTACK \<and>
           e' = (updateTimers delta e)\<lparr>state := FLEE\<rparr> \<and> position e' = position e) \<and>
     state (chase (Some pp) delta e) = FLEE"
    by (simp add: st)
qed

theorem C9_witness:
  "state zombieWounded = CHASE \<and>
   health (stats zombieWounded) = (15 / 100) * maxHealth (stats zombieWounded) \<and>
   distanceTo (position zombieWounded) (position_player player0) = 1 \<and>
   distanceTo (position zombieWounded) (position_player player0) \<le> attackRange (stats zombieWounded) \<and>
   (\<exists>e'. update (1 / 60) zombieWounded player0 = Inr (e', player0) \<and> state e' = FLEE)"
proof -
  have a: "state zombieWounded = CHASE \<and>
           health (stats zombieWounded) < (2 / 10) * maxHealth (stats zombieWounded)"
    by (simp add: zombieWounded_def zombie1_def)
  have d: "distanceTo (position zombieWounded) (position_player player0) = 1"
    by (simp add: zombieWounded_def player0_def distanceTo_def distanceToSquared_def)
  from C9_chase_flees_first [of zombieWounded "1 / 60" player0, rule_format, OF a]
  have "\<exists>e'. update (1 / 60) zombieWounded player0 = Inr (e', player0) \<and> state e' = FLEE"
    by blast
  then show ?thesis using a d by (simp add: zombieWounded_def zombie1_def)
qed

section \<open>Crit defaults of the melee attack\<close>

lemma or_default_zero: "or_default (Some 0) d = or_default None d"
  by (simp add: or_default_def)

lemma or_default_pos:
  assumes "0 < d" and "c = None \<or> (\<exists>v. c = Some v \<and> 0 \<le> v)"
  shows "0 < or_default c d"
  using assms by (auto simp: or_default_def)

lemma or_default_nonzero: "d \<noteq> 0 \<Longrightarrow> or_default c d \<noteq> 0"
  by (simp add: or_default_def split: option.splits)

lemma performMeleeAttack_hit:
  assumes "checkEnemyHit (position_camera camera) (rayOf camera) (range_weapon weapon) s = Some h"
  shows "performMeleeAttack weapon camera rnd now s =
           (let isCrit = (rnd < or_default (critChance weapon) (1 / 10));
                dmg = (if isCrit then damage_weapon weapon * or_default (critMultiplier weapon) 2
                       else damage_weapon weapon)
            in (\<lparr>hit = True, damage_result = Some dmg, isCrit_result = Some isCrit\<rparr>,
                damageEnemy (fst h) dmg isCrit now s))"
  using assms by (simp add: performMeleeAttack_def rayOf_def Let_def)

lemma checkEnemyHit_enemyAt_front:
  "checkEnemyHit (Vector3 0 0 0) (Vector3 0 0 (- 1)) 2 (enemyAt (Vector3 0 0 (- 1)))
     = Some (''enemy-zombie-1'', 1)"
  by (simp add: enemyAt_def checkEnemyHit_single zombie1_def ray_defs)

lemma negative_critChance_never_crits:
  assumes "checkEnemyHit (position_camera camera) (rayOf camera) (range_weapon weapon) s = Some h"
    and "critChance weapon = Some v" and "v < 0" and "0 \<le> rnd"
  shows "isCrit_result (fst (performMeleeAttack weapon camera rnd now s)) = Some False"
  using assms(2,3,4) by (simp add: performMeleeAttack_hit [OF assms(1)] Let_def or_default_def)

text \<open>
  Claim C10 says that no setting of the crit fields gives a weapon that never crits.
  \<^verbatim>\<open>critChance || 0.1\<close> replaces 0 and nothing else: a chance of \<open>-1\<close> is kept, and no
  value of \<^verbatim>\<open>Math.random()\<close>, which is at least 0, is below it. With that sword the
  roll 0 on a hit is no crit and deals the plain 25.
\<close>

theorem C10_counterexample:
  "critChance swordNegative = Some (- 1) \<and>
   or_default (critChance swordNegative) (1 / 10) = - 1 \<and>
   checkEnemyHit (position_camera camera0) (rayOf camera0) (range_weapon swordNegative)
     (enemyAt (Vector3 0 0 (- 1))) = Some (''enemy-zombie-1'', 1) \<and>
   fst (performMeleeAttack swordNegative camera0 0 0 (enemyAt (Vector3 0 0 (- 1))))
     = \<lparr>hit = True, damage_result = Some 25, isCrit_result = Some False\<rparr>"
proof -
  have r: "rayOf camera0 = Vector3 0 0 (- 1)"
    by (simp add: rayOf_def camera0_def applyQuaternion_def normalize_v_def length_v_def
        multiplyScalar_def Let_def)
  have w: "critChance swordNegative = Some (- 1)" "range_weapon swordNegative = 2"
    "damage_weapon swordNegative = 25"
    by (simp_all add: swordNegative_def sword_def)
  have h: "checkEnemyHit (position_camera camera0) (rayOf camera0) (range_weapon swordNegative)
     (enemyAt (Vector3 0 0 (- 1))) = Some (''enemy-zombie-1'', 1)"
  proof -
    have "position_camera camera0 = Vector3 0 0 0" by (simp add: camera0_def)
    then show ?thesis
      using checkEnemyHit_enemyAt_front by (simp add: r w)
  qed
  have o: "or_default (critChance swordNegative) (1 / 10) = - 1"
    by (simp add: w or_default_def)
  have "fst (performMeleeAttack swordNegative camera0 0 0 (enemyAt (Vector3 0 0 (- 1))))
     = \<lparr>hit = True, damage_result = Some 25, isCrit_result = Some False\<rparr>"
    by (simp add: performMeleeAttack_hit [OF h] Let_def w or_default_def)
  then show ?thesis using w h o by simp
qed

text \<open>
  Claim C10, amended. In \<^verbatim>\<open>performMeleeAttack\<close> a \<^verbatim>\<open>critChance\<close> of 0 behaves as an
  absent one, and so does a \<^verbatim>\<open>critMultiplier\<close> of 0: on a hit the roll is against 0.1
  and a crit multiplies the damage by 2. On a hit the attack is a crit exactly when the
  roll is below \<^verbatim>\<open>critChance || 0.1\<close>. For a \<^verbatim>\<open>critChance\<close> that is absent or not
  negative (the field is documented as 0 to 1) that bound is positive and the roll 0 is
  a crit, so no such weapon never crits; a negative \<^verbatim>\<open>critChance\<close> is kept and never
  crits. The factor of a crit, \<^verbatim>\<open>critMultiplier || 2.0\<close>, is never 0.
\<close>

theorem C10_zero_crit_fields_default:
  "(critChance weapon = Some 0 \<longrightarrow>
      performMeleeAttack weapon camera rnd now s
        = performMeleeAttack (weapon\<lparr>critChance := None\<rparr>) camera rnd now s)
   \<and> (critMultiplier weapon = Some 0 \<longrightarrow>
      performMeleeAttack weapon camera rnd now s
        = performMeleeAttack (weapon\<lparr>critMultiplier := None\<rparr>) camera rnd now s)
   \<and> (checkEnemyHit (position_camera camera) (rayOf camera) (range_weapon weapon) s = Some h \<longrightarrow>
        isCrit_result (fst (performMeleeAttack weapon camera rnd now s))
          = Some (rnd < or_default (critChance weapon) (1 / 10)) \<and>
        (critChance weapon = Some 0 \<longrightarrow>
           isCrit_result (fst (performMeleeAttack weapon camera rnd now s)) = Some (rnd < 1 / 10)) \<and>
        (critMultiplier weapon = Some 0 \<and> rnd < or_default (critChance weapon) (1 / 10) \<longrightarrow>
           damage_result (fst (performMeleeAttack weapon camera rnd now s))
             = Some (damage_weapon weapon * 2)) \<and>
        (critChance weapon = None \<or> (\<exists>v. critChance weapon = Some v \<and> 0 \<le> v) \<longrightarrow>
           0 < or_default (critChance weapon) (1 / 10) \<and>
           isCrit_result (fst (performMeleeAttack weapon camera 0 now s)) = Some True) \<and>
        ((\<exists>v. critChance weapon = Some v \<and> v < 0) \<and> 0 \<le> rnd \<longrightarrow>
           isCrit_result (fst (performMeleeAttack weapon camera rnd now s)) = Some False) \<and>
        (rnd < or_default (critChance weapon) (1 / 10) \<longrightarrow>
           damage_result (fst (performMeleeAttack weapon camera rnd now s))
             = Some (damage_weapon weapon * or_default (critMultiplier weapon) 2)))
   \<and> or_default (critMultiplier weapon) 2 \<noteq> 0"
proof (intro conjI impI)
  assume "critChance weapon = Some 0"
  then show "performMeleeAttack weapon camera rnd now s
        = performMeleeAttack (weapon\<lparr>critChance := None\<rparr>) camera rnd now s"
    by (simp add: performMeleeAttack_def or_default_zero Let_def split: option.splits)
next
  assume "critMultiplier weapon = Some 0"
  then show "performMeleeAttack weapon camera rnd now s
        = performMeleeAttack (weapon\<lparr>critMultiplier := None\<rparr>) camera rnd now s"
    by (simp add: performMeleeAttack_def or_default_zero Let_def split: option.splits)
next
  assume h: "checkEnemyHit (position_camera camera) (rayOf camera) (range_weapon weapon) s = Some h"
  show "isCrit_result (fst (performMeleeAttack weapon camera rnd now s))
          = Some (rnd < or_default (critChance weapon) (1 / 10))"
    by (simp add: performMeleeAttack_hit [OF h] Let_def)
next
  assume h: "checkEnemyHit (position_camera camera) (rayOf camera) (range_weapon weapon) s = Some h"
    and "critChance weapon = Some 0"
  then show "isCrit_result (fst (performMeleeAttack weapon camera rnd now s)) = Some (rnd < 1 / 10)"
    by (simp add: performMeleeAttack_hit [OF h] Let_def or_default_def)
next
  assume h: "checkEnemyHit (position_camera camera) (rayOf camera) (range_weapon weapon) s = Some h"
    and "critMultiplier weapon = Some 0 \<and> rnd < or_default (critChance weapon) (1 / 10)"
  then show "damage_result (fst (performMeleeAttack weapon camera rnd now s))
             = Some (damage_weapon weapon * 2)"
    by (simp add: performMeleeAttack_hit [OF h] Let_def or_default_zero) (simp add: or_default_def)
next
  assume c: "critChance weapon = None \<or> (\<exists>v. critChance weapon = Some v \<and> 0 \<le> v)"
  show "0 < or_default (critChance weapon) (1 / 10)"
    using c by (intro or_default_pos) simp_all
next
  assume h: "checkEnemyHit (position_camera camera) (rayOf camera) (range_weapon weapon) s = Some h"
    and c: "critChance weapon = None \<or> (\<exists>v. critChance weapon = Some v \<and> 0 \<le> v)"
  have "0 < or_default (critChance weapon) (1 / 10)"
    using c by (intro or_default_pos) simp_all
  then show "isCrit_result (fst (performMeleeAttack weapon camera 0 now s)) = Some True"
    by (simp add: performMeleeAttack_hit [OF h] Let_def)
next
  assume h: "checkEnemyHit (position_camera camera) (rayOf camera) (range_weapon weapon) s = Some h"
    and n: "(\<exists>v. critChance weapon = Some v \<and> v < 0) \<and> 0 \<le> rnd"
  then obtain v where "critChance weapon = Some v" "v < 0" by blast
  then show "isCrit_result (fst (performMeleeAttack weapon camera rnd now s)) = Some False"
    using n negative_critChance_never_crits [OF h] by blast
next
  assume h: "checkEnemyHit (position_camera camera) (rayOf camera) (range_weapon weapon) s = Some h"
    and "rnd < or_default (critChance weapon) (1 / 10)"
  then show "damage_result (fst (performMeleeAttack weapon camera rnd now s))
             = Some (damage_weapon weapon * or_default (critMultiplier weapon) 2)"
    by (simp add: performMeleeAttack_hit [OF h] Let_def)
next
  show "or_default (critMultiplier weapon) 2 \<noteq> 0" by (simp add: or_default_nonzero)
qed

theorem C10_witness:
  "critChance swordZero = Some 0 \<and> critMultiplier swordZero = Some 0 \<and>
   checkEnemyHit (position_camera camera0) (rayOf camera0) (range_weapon swordZero)
     (enemyAt (Vector3 0 0 (- 1))) = Some (''enemy-zombie-1'', 1) \<and>
   fst (performMeleeAttack swordZero camera0 (1 / 20) 0 (enemyAt (Vector3 0 0 (- 1))))
     = \<lparr>hit = True, damage_result = Some 50, isCrit_result = Some True\<rparr> \<and>
   isCrit_result (fst (performMeleeAttack swordZero camera0 0 0 (enemyAt (Vector3 0 0 (- 1))))) = Some True"
proof -
  have r: "rayOf camera0 = Vector3 0 0 (- 1)"
    by (simp add: rayOf_def camera0_def applyQuaternion_def normalize_v_def length_v_def
        multiplyScalar_def Let_def)
  have w: "critChance swordZero = Some 0" "critMultiplier swordZero = Some 0"
    "range_weapon swordZero = 2" "damage_weapon swordZero = 25"
    by (simp_all add: swordZero_def sword_def)
  have h: "checkEnemyHit (position_camera camera0) (rayOf camera0) (range_weapon swordZero)
     (enemyAt (Vector3 0 0 (- 1))) = Some (''enemy-zombie-1'', 1)"
  proof -
    have "position_camera camera0 = Vector3 0 0 0" by (simp add: camera0_def)
    then show ?thesis
      using checkEnemyHit_enemyAt_front by (simp add: r w)
  qed
  note t = C10_zero_crit_fields_default [where weapon = swordZero and camera = camera0
      and s = "enemyAt (Vector3 0 0 (- 1))" and h = "(''enemy-zombie-1'', 1)",
      THEN conjunct2, THEN conjunct2, THEN conjunct1, rule_format, OF h]
  have lt: "(1 / 20 :: real) < or_default (critChance swordZero) (1 / 10)"
    by (simp add: w or_default_def)
  have i1: "isCrit_result (fst (performMeleeAttack swordZero camera0 (1 / 20) 0 (enemyAt (Vector3 0 0 (- 1)))))
              = Some True"
    using t [THEN conjunct2, THEN conjunct1, rule_format, OF w(1), of "1 / 20" 0] by simp
  have d1: "damage_result (fst (performMeleeAttack swordZero camera0 (1 / 20) 0 (enemyAt (Vector3 0 0 (- 1)))))
              = Some 50"
    using t [THEN conjunct2, THEN conjunct2, THEN conjunct1, rule_format, OF conjI [OF w(2) lt], of 0]
    by (simp add: w)
  have h1: "hit (fst (performMeleeAttack swordZero camera0 (1 / 20) 0 (enemyAt (Vector3 0 0 (- 1)))))"
    using h by (simp add: performMeleeAttack_hit Let_def)
  have i0: "isCrit_result (fst (performMeleeAttack swordZero camera0 0 0 (enemyAt (Vector3 0 0 (- 1))))) = Some True"
    using t [THEN conjunct2, THEN conjunct2, THEN conjunct2, THEN conjunct1, rule_format, of 0] w(1)
    by simp
  have "fst (performMeleeAttack swordZero camera0 (1 / 20) 0 (enemyAt (Vector3 0 0 (- 1))))
     = \<lparr>hit = True, damage_result = Some 50, isCrit_result = Some True\<rparr>"
    using i1 d1 h1 by (cases "fst (performMeleeAttack swordZero camera0 (1 / 20) 0 (enemyAt (Vector3 0 0 (- 1))))") simp
  then show ?thesis using w h i0 by simp
qed

section \<open>Projectile hits\<close>

lemma map_of_damageEnemy_other:
  assumes "k \<noteq> ident"
  shows "map_of (enemies (damageEnemy ident dmg c now s)) k = map_of (enemies s) k"
  using assms by (simp add: damageEnemy_def Let_def update_conv' split: option.splits)

lemma damageEvents_damageEnemy_alive:
  assumes "map_of (enemies s) ident = Some e" and "state e \<noteq> DEAD"
  shows "damageEvents (damageEnemy ident dmg False now s) = damageEvents s @ [hitEvent dmg (ident, e)]"
  using assms by (simp add: damageEnemy_def Let_def hitEvent_def)

lemma expire_fields [simp]:
  "hasExpired (expire p) = True"
  "checkedEnemies (expire p) = checkedEnemies p"
  "lifetime (expire p) = lifetime p"
  by (simp_all add: expire_def)

lemma projectileHit_cases:
  "projectileHit dmg pos now (p, s) (k, e) =
     (if inRange pos p (k, e)
      then (expire (p\<lparr>checkedEnemies := insert k (checkedEnemies p)\<rparr>), damageEnemy k dmg False now s)
      else (p, s))"
  by (auto simp: projectileHit_def inRange_def Let_def)

lemma inRange_insert:
  assumes "fst entry \<noteq> k"
  shows "inRange pos (expire (p\<lparr>checkedEnemies := insert k (checkedEnemies p)\<rparr>)) entry = inRange pos p entry"
  using assms by (simp add: inRange_def)

lemma filter_inRange_insert:
  assumes "k \<notin> fst ` set ys"
  shows "filter (inRange pos (expire (p\<lparr>checkedEnemies := insert k (checkedEnemies p)\<rparr>))) ys
           = filter (inRange pos p) ys"
  using assms by (intro filter_cong refl inRange_insert) auto

lemma projectile_loop:
  assumes "distinct (map fst ys)" and "\<forall>entry \<in> set ys. map_of (enemies s0) (fst entry) = Some (snd entry)"
  shows "damageEvents (snd (foldl (projectileHit dmg pos now) (p0, s0) ys))
           = damageEvents s0 @ map (hitEvent dmg) (filter (inRange pos p0) ys)
       \<and> checkedEnemies (fst (foldl (projectileHit dmg pos now) (p0, s0) ys))
           = checkedEnemies p0 \<union> fst ` set (filter (inRange pos p0) ys)
       \<and> hasExpired (fst (foldl (projectileHit dmg pos now) (p0, s0) ys))
           = (hasExpired p0 \<or> filter (inRange pos p0) ys \<noteq> [])
       \<and> lifetime (fst (foldl (projectileHit dmg pos now) (p0, s0) ys)) = lifetime p0
       \<and> (\<forall>entry \<in> set (filter (inRange pos p0) ys).
            \<exists>e'. map_of (enemies (snd (foldl (projectileHit dmg pos now) (p0, s0) ys))) (fst entry) = Some e' \<and>
                 health (stats e') = healthAfter (health (stats (snd entry))) (finalDamage (defense (stats (snd entry))) dmg))
       \<and> (\<forall>k. k \<notin> fst ` set (filter (inRange pos p0) ys) \<longrightarrow>
            map_of (enemies (snd (foldl (projectileHit dmg pos now) (p0, s0) ys))) k = map_of (enemies s0) k)
       \<and> (filter (inRange pos p0) ys = [] \<longrightarrow> foldl (projectileHit dmg pos now) (p0, s0) ys = (p0, s0))"
  using assms
proof (induction ys arbitrary: p0 s0)
  case Nil
  show ?case by simp
next
  case (Cons y ys)
  obtain k e where y: "y = (k, e)" by (cases y)
  from Cons.prems have dist: "distinct (map fst ys)" and knot: "k \<notin> fst ` set ys"
    and here: "map_of (enemies s0) k = Some e"
    and rest: "\<forall>entry \<in> set ys. map_of (enemies s0) (fst entry) = Some (snd entry)"
    by (auto simp: y)
  show ?case
  proof (cases "inRange pos p0 (k, e)")
    case False
    then have step: "projectileHit dmg pos now (p0, s0) (k, e) = (p0, s0)"
      by (simp add: projectileHit_cases)
    from Cons.IH [OF dist rest, of p0] False show ?thesis
      by (simp add: step y)
  next
    case True
    let ?p = "expire (p0\<lparr>checkedEnemies := insert k (checkedEnemies p0)\<rparr>)"
    let ?s = "damageEnemy k dmg False now s0"
    have alive: "state e \<noteq> DEAD" using True by (simp add: inRange_def)
    have step: "projectileHit dmg pos now (p0, s0) (k, e) = (?p, ?s)"
      using True by (simp add: projectileHit_cases)
    have rest': "\<forall>entry \<in> set ys. map_of (enemies ?s) (fst entry) = Some (snd entry)"
    proof
      fix entry assume m: "entry \<in> set ys"
      then have "fst entry \<noteq> k" using knot by auto
      then show "map_of (enemies ?s) (fst entry) = Some (snd entry)"
        using rest m by (simp add: map_of_damageEnemy_other)
    qed
    note f = filter_inRange_insert [OF knot, of pos p0]
    note ih = Cons.IH [OF dist rest', of ?p, unfolded f]
    have ev: "damageEvents ?s = damageEvents s0 @ [hitEvent dmg (k, e)]"
      by (rule damageEvents_damageEnemy_alive [OF here alive])
    have kn: "k \<notin> fst ` set (filter (inRange pos p0) ys)" using knot by auto
    have hk: "\<exists>e'. map_of (enemies ?s) k = Some e' \<and>
                 health (stats e') = healthAfter (health (stats e)) (finalDamage (defense (stats e)) dmg)"
      using map_of_damageEnemy_alive [OF here alive, of dmg False now] by simp
    have c1: "damageEvents (snd (foldl (projectileHit dmg pos now) (p0, s0) (y # ys)))
           = damageEvents s0 @ map (hitEvent dmg) (filter (inRange pos p0) (y # ys))"
      using ih True by (simp add: step ev y)
    have c2: "checkedEnemies (fst (foldl (projectileHit dmg pos now) (p0, s0) (y # ys)))
           = checkedEnemies p0 \<union> fst ` set (filter (inRange pos p0) (y # ys))"
      using ih True by (simp add: step y)
    have c3: "hasExpired (fst (foldl (projectileHit dmg pos now) (p0, s0) (y # ys)))
           = (hasExpired p0 \<or> filter (inRange pos p0) (y # ys) \<noteq> [])"
      using ih True by (simp add: step y)
    have c4: "lifetime (fst (foldl (projectileHit dmg pos now) (p0, s0) (y # ys))) = lifetime p0"
      using ih by (simp add: step y)
    have c5: "\<forall>entry \<in> set (filter (inRange pos p0) (y # ys)).
            \<exists>e'. map_of (enemies (snd (foldl (projectileHit dmg pos now) (p0, s0) (y # ys)))) (fst entry) = Some e' \<and>
                 health (stats e') = healthAfter (health (stats (snd entry))) (finalDamage (defense (stats (snd entry))) dmg)"
    proof
      fix entry assume m: "entry \<in> set (filter (inRange pos p0) (y # ys))"
      show "\<exists>e'. map_of (enemies (snd (foldl (projectileHit dmg pos now) (p0, s0) (y # ys)))) (fst entry) = Some e' \<and>
                 health (stats e') = healthAfter (health (stats (snd entry))) (finalDamage (defense (stats (snd entry))) dmg)"
      proof (cases "entry = y")
        case True
        have "map_of (enemies (snd (foldl (projectileHit dmg pos now) (?p, ?s) ys))) k = map_of (enemies ?s) k"
          using ih kn by blast
        then show ?thesis using hk by (simp add: step True y)
      next
        case False
        then have "entry \<in> set (filter (inRange pos p0) ys)"
          using m by (auto split: if_splits)
        then show ?thesis using ih by (simp add: step y)
      qed
    qed
    have c6: "\<forall>k'. k' \<notin> fst ` set (filter (inRange pos p0) (y # ys)) \<longrightarrow>
            map_of (enemies (snd (foldl (projectileHit dmg pos now) (p0, s0) (y # ys)))) k' = map_of (enemies s0) k'"
    proof (intro allI impI)
      fix k' assume n: "k' \<notin> fst ` set (filter (inRange pos p0) (y # ys))"
      then have ne: "k' \<noteq> k" and n': "k' \<notin> fst ` set (filter (inRange pos p0) ys)"
        using True by (auto simp: y)
      have "map_of (enemies (snd (foldl (projectileHit dmg pos now) (?p, ?s) ys))) k' = map_of (enemies ?s) k'"
        using ih n' by blast
      then show "map_of (enemies (snd (foldl (projectileHit dmg pos now) (p0, s0) (y # ys)))) k' = map_of (enemies s0) k'"
        using ne by (simp add: step y map_of_damageEnemy_other)
    qed
    have c7: "filter (inRange pos p0) (y # ys) \<noteq> []" using True by (simp add: y)
    from c1 c2 c3 c4 c5 c6 c7 show ?thesis by blast
  qed
qed


lemma inRange_lifetime [simp]:
  "inRange pos (p\<lparr>lifetime := l\<rparr>) = inRange pos p"
  "inRange pos (expire p) = inRange pos p"
  by (simp_all add: inRange_def fun_eq_iff)

lemma inRange_iff:
  "inRange pos p entry \<longleftrightarrow>
     state (snd entry) \<noteq> DEAD \<and> fst entry \<notin> checkedEnemies p \<and>
     distanceToSquared pos (position (snd entry)) < 9 / 4"
  using distanceTo_less_iff [of "15 / 10" pos "position (snd entry)"]
  by (simp add: inRange_def)

lemma projectileFrame_expired:
  assumes "hasExpired p"
  shows "projectileFrame dmg body delta now (p, s) = (p, s)"
  using assms by (simp add: projectileFrame_def)

lemma projectileFrame_active:
  assumes "\<not> hasExpired p"
  shows "projectileFrame dmg (Some pos) delta now (p, s) =
           foldl (projectileHit dmg pos now)
             ((if max 0 (lifetime p - delta) \<le> 0 then expire p else p)\<lparr>lifetime := max 0 (lifetime p - delta)\<rparr>, s)
             (enemies s)"
  using assms by (simp add: projectileFrame_def Let_def)

text \<open>
  Claim C8 says that no projectile damages more than one enemy. The loop over the
  enemies has no early exit: a fresh projectile half a unit from each of two zombies
  damages both in one frame, 14 points each.
\<close>

theorem C8_counterexample:
  "\<not> hasExpired newProjectile \<and> damageEvents store3 = [] \<and>
   map enemyId (damageEvents (snd (projectileFrame 15 (Some (Vector3 (1 / 2) 1 0)) (1 / 60) 0
                                     (newProjectile, store3))))
     = [''enemy-zombie-1'', ''enemy-zombie-2''] \<and>
   map damage_event (damageEvents (snd (projectileFrame 15 (Some (Vector3 (1 / 2) 1 0)) (1 / 60) 0
                                     (newProjectile, store3))))
     = [Num 14, Num 14]"
  by (simp add: projectileFrame_def newProjectile_def store3_def store1_def zombie1_def Let_def
      projectileHit_cases inRange_iff expire_def distanceToSquared_def
      damageEnemy_def finalDamage_5_15 healthMinus_def storeNumber_def)

text \<open>
  Claim C8, amended. A frame of an expired projectile changes nothing. A frame of a
  projectile that has not expired, over a map with distinct keys, damages each enemy
  that is alive, not in its set and nearer than 1.5, once and in map order, adds them
  to the set, and leaves every other enemy as it was; the projectile has expired after
  the frame exactly when there was such an enemy or its lifetime ran out. So all the
  damage of a projectile falls in one frame and no enemy is damaged twice, while
  several enemies in range in that frame are all damaged.
\<close>

theorem C8_projectile_frame:
  "(hasExpired p \<longrightarrow> projectileFrame dmg body delta now (p, s) = (p, s))
   \<and> (\<not> hasExpired p \<and> distinct (map fst (enemies s)) \<longrightarrow>
        damageEvents (snd (projectileFrame dmg (Some pos) delta now (p, s)))
          = damageEvents s @ map (hitEvent dmg) (targets pos p s) \<and>
        distinct (map fst (targets pos p s)) \<and>
        checkedEnemies (fst (projectileFrame dmg (Some pos) delta now (p, s)))
          = checkedEnemies p \<union> fst ` set (targets pos p s) \<and>
        (hasExpired (fst (projectileFrame dmg (Some pos) delta now (p, s)))
           \<longleftrightarrow> targets pos p s \<noteq> [] \<or> lifetime p - delta \<le> 0) \<and>
        (\<forall>entry \<in> set (targets pos p s).
           \<exists>e'. map_of (enemies (snd (projectileFrame dmg (Some pos) delta now (p, s)))) (fst entry)
                  = Some e' \<and>
                health (stats e') =
                  healthAfter (health (stats (snd entry))) (finalDamage (defense (stats (snd entry))) dmg)) \<and>
        (\<forall>k. k \<notin> fst ` set (targets pos p s) \<longrightarrow>
           map_of (enemies (snd (projectileFrame dmg (Some pos) delta now (p, s)))) k
             = map_of (enemies s) k))"
proof (intro conjI impI)
  assume "hasExpired p"
  then show "projectileFrame dmg body delta now (p, s) = (p, s)"
    by (rule projectileFrame_expired)
next
  assume h: "\<not> hasExpired p \<and> distinct (map fst (enemies s))"
  let ?p1 = "(if max 0 (lifetime p - delta) \<le> 0 then expire p else p)\<lparr>lifetime := max 0 (lifetime p - delta)\<rparr>"
  have fr: "projectileFrame dmg (Some pos) delta now (p, s)
              = foldl (projectileHit dmg pos now) (?p1, s) (enemies s)"
    using h by (simp add: projectileFrame_active)
  have pre: "\<forall>entry \<in> set (enemies s). map_of (enemies s) (fst entry) = Some (snd entry)"
    using h by simp
  have flt: "filter (inRange pos ?p1) (enemies s) = targets pos p s"
    by (simp add: targets_def)
  have ck: "checkedEnemies ?p1 = checkedEnemies p" by simp
  have ex: "hasExpired ?p1 = (lifetime p - delta \<le> 0)" using h by auto
  note l = projectile_loop [OF conjunct2 [OF h] pre, of dmg pos now ?p1, folded fr, unfolded flt ck ex]
  from l show "damageEvents (snd (projectileFrame dmg (Some pos) delta now (p, s)))
          = damageEvents s @ map (hitEvent dmg) (targets pos p s)" by blast
  show "distinct (map fst (targets pos p s))"
    using h by (simp add: targets_def distinct_map_filter)
  from l show "checkedEnemies (fst (projectileFrame dmg (Some pos) delta now (p, s)))
          = checkedEnemies p \<union> fst ` set (targets pos p s)" by blast
  from l show "hasExpired (fst (projectileFrame dmg (Some pos) delta now (p, s)))
           \<longleftrightarrow> targets pos p s \<noteq> [] \<or> lifetime p - delta \<le> 0" by blast
  from l show "\<forall>entry \<in> set (targets pos p s).
           \<exists>e'. map_of (enemies (snd (projectileFrame dmg (Some pos) delta now (p, s)))) (fst entry)
                  = Some e' \<and>
                health (stats e') =
                  healthAfter (health (stats (snd entry))) (finalDamage (defense (stats (snd entry))) dmg)"
    by blast
  from l show "\<forall>k. k \<notin> fst ` set (targets pos p s) \<longrightarrow>
           map_of (enemies (snd (projectileFrame dmg (Some pos) delta now (p, s)))) k
             = map_of (enemies s) k" by blast
qed

theorem C8_witness:
  "\<not> hasExpired newProjectile \<and> distinct (map fst (enemies store2)) \<and>
   targets (Vector3 0 0 (- (5 / 2))) newProjectile store2
     = [(''enemy-zombie-1'', zombie1\<lparr>position := Vector3 0 0 (- (3 / 2))\<rparr>)] \<and>
   map enemyId (damageEvents (snd (projectileFrame 15 (Some (Vector3 0 0 (- (5 / 2)))) (1 / 60) 0
                                     (newProjectile, store2))))
     = [''enemy-zombie-1''] \<and>
   hasExpired (fst (projectileFrame 15 (Some (Vector3 0 0 (- (5 / 2)))) (1 / 60) 0
                      (newProjectile, store2))) \<and>
   projectileFrame 15 (Some (Vector3 0 0 (- (5 / 2)))) (1 / 60) 0
     (newProjectile\<lparr>hasExpired := True\<rparr>, store2) = (newProjectile\<lparr>hasExpired := True\<rparr>, store2)"
proof -
  have a: "\<not> hasExpired newProjectile \<and> distinct (map fst (enemies store2))"
    by (simp add: newProjectile_def store2_def)
  have tg: "targets (Vector3 0 0 (- (5 / 2))) newProjectile store2
     = [(''enemy-zombie-1'', zombie1\<lparr>position := Vector3 0 0 (- (3 / 2))\<rparr>)]"
    by (simp add: targets_def inRange_iff store2_def store1_def zombie1_def newProjectile_def
        distanceToSquared_def)
  have ev: "damageEvents store2 = []" by (simp add: store2_def store1_def)
  have b: "hasExpired (newProjectile\<lparr>hasExpired := True\<rparr>)" by simp
  note t = C8_projectile_frame [of newProjectile 15 _ "1 / 60" 0 store2 "Vector3 0 0 (- (5 / 2))"]
  note u = C8_projectile_frame [of "newProjectile\<lparr>hasExpired := True\<rparr>" 15
      "Some (Vector3 0 0 (- (5 / 2)))" "1 / 60" 0 store2, THEN conjunct1, rule_format, OF b]
  note c = t [THEN conjunct2, rule_format, OF a, unfolded tg ev]
  from c have "map enemyId (damageEvents (snd (projectileFrame 15 (Some (Vector3 0 0 (- (5 / 2)))) (1 / 60) 0
                                     (newProjectile, store2)))) = [''enemy-zombie-1'']"
    by (simp add: hitEvent_def)
  moreover from c have "hasExpired (fst (projectileFrame 15 (Some (Vector3 0 0 (- (5 / 2)))) (1 / 60) 0
                      (newProjectile, store2)))"
    by simp
  ultimately show ?thesis using a tg u by simp
qed

section \<open>What the AI step and the store keep\<close>

text \<open>
  The AI step never writes the stats of its enemy, and the store's operations keep the
  keys of the map distinct, as the keys of a \<^verbatim>\<open>Map\<close> are.
\<close>

lemma stats_transitionToState [simp]: "stats (transitionToState st e) = stats e"
  by (cases st) (simp_all add: transitionToState_def Let_def)

lemma stats_moveTowards [simp]: "stats (moveTowards targ delta spd e) = stats e"
  by (simp add: moveTowards_def Let_def)

lemma stats_checkForPlayer [simp]: "stats (checkForPlayer pp e) = stats e"
  by (simp add: checkForPlayer_def Let_def split: option.splits)

lemma stats_updateTimers [simp]: "stats (updateTimers delta e) = stats e"
  by (simp add: updateTimers_def Let_def)

lemma stats_update:
  assumes "update delta e pl = Inr (e', pl')"
  shows "stats e' = stats e"
proof (cases "state e")
  case PATROL
  then show ?thesis using assms
    by (auto simp: update_def dispatch_def patrol_def Let_def split: if_splits sum.splits)
next
  case ATTACK
  then show ?thesis using assms
    by (auto simp: update_def dispatch_def attack_def Let_def split: if_splits)
next
  case FLEE
  then show ?thesis using assms
    by (auto simp: update_def dispatch_def flee_def Let_def split: if_splits)
next
  case CHASE
  then show ?thesis using assms
    by (auto simp: update_def dispatch_def chase_def Let_def split: if_splits)
next
  case ALERT
  then show ?thesis using assms
    by (auto simp: update_def dispatch_def alert_def Let_def split: if_splits)
next
  case IDLE
  then show ?thesis using assms
    by (auto simp: update_def dispatch_def idle_def Let_def split: if_splits)
next
  case DEAD
  then show ?thesis using assms by (simp add: update_def)
qed

lemma distinct_keys_spawnEnemy:
  "distinct (map fst (enemies s)) \<Longrightarrow> distinct (map fst (enemies (snd (spawnEnemy ty p s))))"
  by (simp add: spawnEnemy_def Let_def distinct_update)

lemma distinct_keys_damageEnemy:
  "distinct (map fst (enemies s)) \<Longrightarrow> distinct (map fst (enemies (damageEnemy ident dmg c now s)))"
  by (simp add: damageEnemy_def Let_def distinct_update split: option.splits)

lemma distinct_keys_respawnEnemy:
  "distinct (map fst (enemies s)) \<Longrightarrow> respawnEnemy ident s = Inr s' \<Longrightarrow>
   distinct (map fst (enemies s'))"
  by (auto simp: respawnEnemy_def distinct_update split: option.splits list.splits)

end
